theory Spec2Isabelle
  imports Main
begin

section \<open>JavaScript values and thrown values\<close>

text \<open>
  The runtime of the TypeScript SDK (\<^verbatim>\<open>exospherehost/runtime.ts\<close>, \<^verbatim>\<open>signals.ts\<close>,
  \<^verbatim>\<open>node/BaseNode.ts\<close>, \<^verbatim>\<open>utils.ts\<close>) moves JSON-like values between the orchestrator and
  the node handlers. An object is an association list in property order, a missing
  property reads as \<open>JUndefined\<close>. Numbers are restricted to the integers (batch sizes,
  delays in milliseconds).
\<close>

datatype js_value =
    JUndefined
  | JNull
  | JBool bool
  | JNum int
  | JStr string
  | JArr "js_value list"
  | JObj "(string \<times> js_value) list"

text \<open>
  What a \<^verbatim>\<open>throw\<close> (or a rejected promise) carries: one of the two signal classes of
  \<^verbatim>\<open>signals.ts\<close>, any other \<^verbatim>\<open>Error\<close> instance with its message (\<^verbatim>\<open>TypeError\<close> and zod's
  error class are \<^verbatim>\<open>Error\<close> subclasses), or an arbitrary value that is not an
  \<^verbatim>\<open>Error\<close> instance.
\<close>

datatype thrown =
    PruneSignal (data: js_value)
  | ReQueueAfterSignal (delayMs: int)
  | Error (message: string)
  | Thrown js_value

text \<open>\<^verbatim>\<open>obj[key]\<close> on an association list: the missing property is \<^verbatim>\<open>undefined\<close>.\<close>

definition get_prop :: "(string \<times> js_value) list \<Rightarrow> string \<Rightarrow> js_value" where
  "get_prop kvs k = (case map_of kvs k of None \<Rightarrow> JUndefined | Some v \<Rightarrow> v)"

section \<open>signals.ts: construction of the signals\<close>

text \<open>
  \<^verbatim>\<open>constructor(public data: Record<string, any> = {})\<close>: the default parameter applies
  when the argument is absent or \<^verbatim>\<open>undefined\<close>.
\<close>

definition new_PruneSignal :: "js_value \<Rightarrow> thrown" where
  "new_PruneSignal d = PruneSignal (if d = JUndefined then JObj [] else d)"

text \<open>
  \<^verbatim>\<open>constructor(public delayMs: number) { if (delayMs <= 0) throw new Error(...); super(...) }\<close>:
  the constructor either throws or yields the signal object.
\<close>

definition new_ReQueueAfterSignal :: "int \<Rightarrow> thrown + thrown" where
  "new_ReQueueAfterSignal d =
     (if d \<le> 0 then Inl (Error ''Delay must be greater than 0'')
      else Inr (ReQueueAfterSignal d))"

section \<open>runtime.ts: AsyncQueue\<close>

text \<open>
  \<^verbatim>\<open>items\<close> is the buffer, \<^verbatim>\<open>resolvers\<close> the resolve functions of the suspended
  \<^verbatim>\<open>get\<close> calls, each identified by the token of the consumer that waits on it.
  \<^verbatim>\<open>capacity\<close> is stored by the constructor and read nowhere.
\<close>

record 'a AsyncQueue =
  items :: "'a list"
  resolvers :: "nat list"
  capacity :: int

definition new_AsyncQueue :: "int \<Rightarrow> 'a AsyncQueue" where
  "new_AsyncQueue c = \<lparr>items = [], resolvers = [], capacity = c\<rparr>"

definition size_queue :: "'a AsyncQueue \<Rightarrow> nat" where
  "size_queue q = length (items q)"

text \<open>
  \<^verbatim>\<open>put\<close>: with a waiting resolver, shift it and resolve it with the item (the second
  component names the consumer and the item handed over); otherwise push the item.
\<close>

definition put :: "'a AsyncQueue \<Rightarrow> 'a \<Rightarrow> 'a AsyncQueue \<times> (nat \<times> 'a) option" where
  "put q item =
     (case resolvers q of
        r # rs \<Rightarrow> (q\<lparr>resolvers := rs\<rparr>, Some (r, item))
      | [] \<Rightarrow> (q\<lparr>items := items q @ [item]\<rparr>, None))"

datatype 'a get_result = Ready 'a | Pending

text \<open>
  \<^verbatim>\<open>get\<close>, called by consumer \<open>c\<close>: with a buffered item, shift and return it; otherwise
  return a pending promise whose resolver is pushed onto \<^verbatim>\<open>resolvers\<close>.
\<close>

definition get :: "'a AsyncQueue \<Rightarrow> nat \<Rightarrow> 'a get_result \<times> 'a AsyncQueue" where
  "get q c =
     (case items q of
        x # xs \<Rightarrow> (Ready x, q\<lparr>items := xs\<rparr>)
      | [] \<Rightarrow> (Pending, q\<lparr>resolvers := resolvers q @ [c]\<rparr>))"

text \<open>
  A history of queue operations. \<open>received\<close> collects, in the order of delivery, which
  consumer obtained which item (from the buffer or by direct hand-over).
\<close>

datatype 'a queue_op = Put 'a | Get nat

fun run_op :: "'a AsyncQueue \<times> (nat \<times> 'a) list \<Rightarrow> 'a queue_op \<Rightarrow> 'a AsyncQueue \<times> (nat \<times> 'a) list" where
  "run_op (q, received) (Put x) =
     (case put q x of
        (q', None) \<Rightarrow> (q', received)
      | (q', Some d) \<Rightarrow> (q', received @ [d]))"
| "run_op (q, received) (Get c) =
     (case get q c of
        (Ready x, q') \<Rightarrow> (q', received @ [(c, x)])
      | (Pending, q') \<Rightarrow> (q', received))"

definition run_ops :: "int \<Rightarrow> 'a queue_op list \<Rightarrow> 'a AsyncQueue \<times> (nat \<times> 'a) list" where
  "run_ops c ops = foldl run_op (new_AsyncQueue c, []) ops"

fun puts_of :: "'a queue_op list \<Rightarrow> 'a list" where
  "puts_of [] = []"
| "puts_of (Put x # ops) = x # puts_of ops"
| "puts_of (Get c # ops) = puts_of ops"

fun gets_of :: "'a queue_op list \<Rightarrow> nat list" where
  "gets_of [] = []"
| "gets_of (Put x # ops) = gets_of ops"
| "gets_of (Get c # ops) = c # gets_of ops"


section \<open>Schemas, node classes and the HTTP interface\<close>

text \<open>
  A static schema member of a node class as the runtime observes it: \<^verbatim>\<open>_def.typeName\<close>,
  \<^verbatim>\<open>shape\<close> (absent on schemas that are not objects) and the \<^verbatim>\<open>parse\<close> method, which
  either throws or returns the validated value. \<open>NoSchema\<close> is a member that is absent
  (\<^verbatim>\<open>undefined\<close>). The schema library itself is a dependency of the SDK: the runtime only
  calls what is listed here.
\<close>

datatype zod =
    Zod string "(string \<times> zod) list option" "js_value \<Rightarrow> thrown + js_value"
  | NoSchema

definition isZodObjectSchema :: "zod \<Rightarrow> bool" where
  "isZodObjectSchema x = (case x of Zod tn sh p \<Rightarrow> tn = ''ZodObject'' | NoSchema \<Rightarrow> False)"

definition isZodStringSchema :: "zod \<Rightarrow> bool" where
  "isZodStringSchema x = (case x of Zod tn sh p \<Rightarrow> tn = ''ZodString'' | NoSchema \<Rightarrow> False)"

text \<open>\<^verbatim>\<open>'Inputs' in node\<close>.\<close>

definition has_schema :: "zod \<Rightarrow> bool" where
  "has_schema x = (case x of Zod tn sh p \<Rightarrow> True | NoSchema \<Rightarrow> False)"

text \<open>\<^verbatim>\<open>schema.parse(v)\<close>; on an absent schema the member access throws a TypeError.\<close>

definition zod_parse :: "zod \<Rightarrow> js_value \<Rightarrow> thrown + js_value" where
  "zod_parse z v =
     (case z of
        Zod tn sh p \<Rightarrow> p v
      | NoSchema \<Rightarrow> Inl (Error ''Cannot read properties of undefined (reading 'parse')''))"

text \<open>
  \<^verbatim>\<open>z.string()\<close> and \<^verbatim>\<open>z.object({...})\<close> as the examples below use them: a string schema
  accepts exactly the strings; an object schema accepts an object whose declared fields
  all validate, and returns the declared fields only, in the order of the shape. The
  text of the message of a validation error is not modelled.
\<close>

definition z_string :: zod where
  "z_string = Zod ''ZodString'' None
     (\<lambda>v. case v of JStr s \<Rightarrow> Inr v | _ \<Rightarrow> Inl (Error ''ZodError: expected string''))"


fun parse_fields :: "(string \<times> zod) list \<Rightarrow> (string \<times> js_value) list \<Rightarrow> thrown + (string \<times> js_value) list" where
  "parse_fields [] kvs = Inr []"
| "parse_fields ((k, z) # fs) kvs =
     (case zod_parse z (get_prop kvs k) of
        Inl e \<Rightarrow> Inl e
      | Inr v \<Rightarrow>
          (case parse_fields fs kvs of
             Inl e \<Rightarrow> Inl e
           | Inr vs \<Rightarrow> Inr ((k, v) # vs)))"

definition z_object :: "(string \<times> zod) list \<Rightarrow> zod" where
  "z_object fs = Zod ''ZodObject'' (Some fs)
     (\<lambda>v. case v of
        JObj kvs \<Rightarrow> (case parse_fields fs kvs of Inl e \<Rightarrow> Inl e | Inr vs \<Rightarrow> Inr (JObj vs))
      | _ \<Rightarrow> Inl (Error ''ZodError: expected object''))"

text \<open>
  A node class (\<^verbatim>\<open>NodeCtor\<close>): its \<^verbatim>\<open>name\<close>, whether its prototype is an instance of
  \<^verbatim>\<open>BaseNode\<close>, the three static schemas, and the user's \<^verbatim>\<open>execute\<close>, which reads the
  validated \<^verbatim>\<open>this.inputs\<close> and \<^verbatim>\<open>this.secrets\<close> and either rejects with a thrown value
  or resolves with a result.
\<close>

record NodeCtor =
  name :: string
  extends_BaseNode :: bool
  Inputs :: zod
  Outputs :: zod
  Secrets :: zod
  execute :: "js_value \<Rightarrow> js_value \<Rightarrow> thrown + js_value"

datatype http_method = GET | POST | PUT

text \<open>
  A call of \<^verbatim>\<open>fetch\<close>: the URL, the method, the \<^verbatim>\<open>x-api-key\<close> header and the JSON document
  sent as the body (the \<^verbatim>\<open>Content-Type\<close> header is the same constant in every call).
\<close>

record request =
  url :: string
  http_method :: http_method
  x_api_key :: string
  body :: "js_value option"

text \<open>
  A response: \<^verbatim>\<open>res.ok\<close> holds exactly for a status from 200 to 299; \<^verbatim>\<open>res.text()\<close>;
  \<^verbatim>\<open>res.json()\<close>, which rejects with a SyntaxError (\<open>Inl\<close> its message) when the body is
  not JSON.
\<close>

record response =
  status :: nat
  text_of :: string
  json_of :: "string + js_value"

definition ok :: "response \<Rightarrow> bool" where
  "ok res = (200 \<le> status res \<and> status res \<le> 299)"

text \<open>
  \<^verbatim>\<open>fetch\<close> resolves with a response, or rejects with an \<^verbatim>\<open>Error\<close> instance (a TypeError,
  by the Fetch standard) of the given message when the orchestrator cannot be reached.
\<close>

datatype fetch_result = Resolves response | Rejects string

text \<open>The network answers the \<open>n\<close>-th call of the run (counted from 0) to a request.\<close>

type_synonym network = "nat \<Rightarrow> request \<Rightarrow> fetch_result"

datatype log_level = DEBUG | INFO | WARN | ERROR

text \<open>
  A line handed to the logger: the level, the component and the template literal, with
  the interpolated thrown values and numbers kept as they are.
\<close>

datatype log_part = S string | V thrown | N int

text \<open>
  What a task does to the outside: its \<^verbatim>\<open>fetch\<close> calls, the lines it hands to the logger
  and the delays, in milliseconds, of the timers it sleeps on, each in order.
\<close>

record world =
  calls :: "request list"
  logged :: "(log_level \<times> string \<times> log_part list) list"
  sleeps :: "int list"

definition world0 :: world where
  "world0 = \<lparr>calls = [], logged = [], sleeps = []\<rparr>"

definition logger :: "log_level \<Rightarrow> string \<Rightarrow> log_part list \<Rightarrow> world \<Rightarrow> world" where
  "logger lv nm parts w = w\<lparr>logged := logged w @ [(lv, nm, parts)]\<rparr>"

text \<open>
  The delay of the timer that \<^verbatim>\<open>setTimeout(r, ms)\<close> sets: a delay below 1 or above
  2147483647 is set to 1 by the platform.
\<close>

definition setTimeout_delay :: "int \<Rightarrow> int" where
  "setTimeout_delay ms = (if ms < 1 \<or> 2147483647 < ms then 1 else ms)"

text \<open>\<^verbatim>\<open>await new Promise(r => setTimeout(r, ms))\<close>.\<close>

definition sleep :: "int \<Rightarrow> world \<Rightarrow> world" where
  "sleep ms w = w\<lparr>sleeps := sleeps w @ [setTimeout_delay ms]\<rparr>"

definition fetch :: "network \<Rightarrow> request \<Rightarrow> world \<Rightarrow> (thrown + response) \<times> world" where
  "fetch net req w =
     (case net (length (calls w)) req of
        Rejects m \<Rightarrow> (Inl (Error m), w\<lparr>calls := calls w @ [req]\<rparr>)
      | Resolves res \<Rightarrow> (Inr res, w\<lparr>calls := calls w @ [req]\<rparr>))"

text \<open>
  Whether the conversion of a value to a string, as a template literal \<^verbatim>\<open>`${v}`\<close> performs
  it, returns: it throws a TypeError for an object that has an own \<^verbatim>\<open>toString\<close> property
  (no value of this model is callable, and the inherited \<^verbatim>\<open>valueOf\<close> returns the object
  itself), and for an array one of whose elements it throws for; every other value,
  an object without own \<^verbatim>\<open>toString\<close> included, has a string.
\<close>

fun converts :: "js_value \<Rightarrow> bool" where
  "converts (JArr xs) = list_all converts xs"
| "converts (JObj kvs) = (''toString'' \<notin> set (map fst kvs))"
| "converts v = True"

text \<open>
  \<^verbatim>\<open>`${err}`\<close> for a caught value: an \<^verbatim>\<open>Error\<close> instance (the signals are such) has a
  string.
\<close>

definition interpolates :: "thrown \<Rightarrow> bool" where
  "interpolates err = (case err of Thrown v \<Rightarrow> converts v | _ \<Rightarrow> True)"

text \<open>
  \<^verbatim>\<open>JSON.stringify\<close>, as the document its text denotes: a property whose value is
  \<^verbatim>\<open>undefined\<close> is left out of an object, and \<^verbatim>\<open>undefined\<close> in an array becomes \<^verbatim>\<open>null\<close>.
\<close>

primrec JSON_stringify :: "js_value \<Rightarrow> js_value" where
  "JSON_stringify JUndefined = JUndefined"
| "JSON_stringify JNull = JNull"
| "JSON_stringify (JBool b) = JBool b"
| "JSON_stringify (JNum n) = JNum n"
| "JSON_stringify (JStr s) = JStr s"
| "JSON_stringify (JArr xs) =
     JArr (map (\<lambda>v. case v of JUndefined \<Rightarrow> JNull | _ \<Rightarrow> v) (map JSON_stringify xs))"
| "JSON_stringify (JObj kvs) =
     JObj (filter (\<lambda>kv. case snd kv of JUndefined \<Rightarrow> False | _ \<Rightarrow> True)
             (map (map_prod id JSON_stringify) kvs))"

section \<open>signals.ts: sending a signal\<close>

text \<open>
  \<^verbatim>\<open>PruneSignal.send(endpoint, key)\<close>: one POST of \<^verbatim>\<open>{data}\<close>; a response that is not ok
  throws.
\<close>

definition prune_request :: "js_value \<Rightarrow> string \<Rightarrow> string \<Rightarrow> request" where
  "prune_request d endpoint k =
     \<lparr>url = endpoint, http_method = POST, x_api_key = k,
      body = Some (JSON_stringify (JObj [(''data'', d)]))\<rparr>"

definition PruneSignal_send :: "js_value \<Rightarrow> string \<Rightarrow> string \<Rightarrow> network \<Rightarrow> world \<Rightarrow> (thrown + unit) \<times> world" where
  "PruneSignal_send d endpoint k net w =
     (case fetch net (prune_request d endpoint k) w of
        (Inl e, w') \<Rightarrow> (Inl e, w')
      | (Inr res, w') \<Rightarrow>
          if \<not> ok res then (Inl (Error (''Failed to send prune signal to '' @ endpoint)), w')
          else (Inr (), w'))"

text \<open>\<^verbatim>\<open>ReQueueAfterSignal.send(endpoint, key)\<close>: one POST of \<^verbatim>\<open>{enqueue_after: delayMs}\<close>.\<close>

definition requeue_request :: "int \<Rightarrow> string \<Rightarrow> string \<Rightarrow> request" where
  "requeue_request ms endpoint k =
     \<lparr>url = endpoint, http_method = POST, x_api_key = k,
      body = Some (JSON_stringify (JObj [(''enqueue_after'', JNum ms)]))\<rparr>"

definition ReQueueAfterSignal_send :: "int \<Rightarrow> string \<Rightarrow> string \<Rightarrow> network \<Rightarrow> world \<Rightarrow> (thrown + unit) \<times> world" where
  "ReQueueAfterSignal_send ms endpoint k net w =
     (case fetch net (requeue_request ms endpoint k) w of
        (Inl e, w') \<Rightarrow> (Inl e, w')
      | (Inr res, w') \<Rightarrow>
          if \<not> ok res then (Inl (Error (''Failed to send requeue after signal to '' @ endpoint)), w')
          else (Inr (), w'))"

section \<open>node/BaseNode.ts: the wrapper around execute\<close>

text \<open>\<^verbatim>\<open>result.map(r => outputsSchema.parse(r))\<close>: the first element that fails throws.\<close>

fun parse_each :: "zod \<Rightarrow> js_value list \<Rightarrow> thrown + js_value list" where
  "parse_each z [] = Inr []"
| "parse_each z (r # rs) =
     (case zod_parse z r of
        Inl e \<Rightarrow> Inl e
      | Inr v \<Rightarrow>
          (case parse_each z rs of
             Inl e \<Rightarrow> Inl e
           | Inr vs \<Rightarrow> Inr (v # vs)))"

text \<open>
  The statements of \<^verbatim>\<open>_execute\<close> after \<^verbatim>\<open>await this.execute()\<close>: an array is validated
  element by element, \<^verbatim>\<open>null\<close> (and only \<^verbatim>\<open>null\<close>: the test is \<^verbatim>\<open>result === null\<close>)
  becomes \<^verbatim>\<open>{}\<close> without validation, anything else is validated as one value.
\<close>

definition BaseNode_outputs :: "NodeCtor \<Rightarrow> js_value \<Rightarrow> thrown + js_value" where
  "BaseNode_outputs ctor result =
     (case result of
        JArr rs \<Rightarrow>
          (case parse_each (Outputs ctor) rs of
             Inl e \<Rightarrow> Inl e
           | Inr vs \<Rightarrow> Inr (JArr vs))
      | JNull \<Rightarrow> Inr (JObj [])
      | _ \<Rightarrow> zod_parse (Outputs ctor) result)"

text \<open>
  \<^verbatim>\<open>_execute(inputsRaw, secretsRaw)\<close>: parse the inputs, parse the secrets, run the
  user's \<^verbatim>\<open>execute\<close>, then treat its result as above. Every throw rejects the promise.
\<close>

definition BaseNode_execute :: "NodeCtor \<Rightarrow> js_value \<Rightarrow> js_value \<Rightarrow> thrown + js_value" where
  "BaseNode_execute ctor inputsRaw secretsRaw =
     (case zod_parse (Inputs ctor) inputsRaw of
        Inl e \<Rightarrow> Inl e
      | Inr inputs \<Rightarrow>
     (case zod_parse (Secrets ctor) secretsRaw of
        Inl e \<Rightarrow> Inl e
      | Inr secrets \<Rightarrow>
     (case execute ctor inputs secrets of
        Inl e \<Rightarrow> Inl e
      | Inr result \<Rightarrow> BaseNode_outputs ctor result)))"

section \<open>runtime.ts: the Runtime, its construction and validation\<close>

text \<open>
  \<^verbatim>\<open>nodeMapping\<close> is the plain object built by \<^verbatim>\<open>Object.fromEntries\<close>: its own properties,
  where a later entry replaces an earlier one of the same key.
\<close>

record runtime =
  namespace :: string
  runtime_name :: string
  nodes :: "NodeCtor list"
  stateManagerUri :: string
  key :: string
  stateManagerVersion :: string
  batchSize :: int
  workers :: int
  pollInterval :: int
  stateQueue_capacity :: int
  nodeMapping :: "string \<Rightarrow> NodeCtor option"
  nodeNames :: "string list"

record RuntimeOptions =
  opt_stateManagerUri :: "string option"
  opt_key :: "string option"
  opt_batchSize :: "int option"
  opt_workers :: "int option"
  opt_stateManagerVersion :: "string option"
  opt_pollInterval :: "int option"

record process_env =
  EXOSPHERE_STATE_MANAGER_URI :: "string option"
  EXOSPHERE_API_KEY :: "string option"

definition Object_fromEntries :: "(string \<times> 'a) list \<Rightarrow> string \<Rightarrow> 'a option" where
  "Object_fromEntries kvs = map_of (rev kvs)"

text \<open>\<^verbatim>\<open>a ?? b\<close>.\<close>

definition nullish :: "'a option \<Rightarrow> 'a \<Rightarrow> 'a" where
  "nullish a b = (case a of None \<Rightarrow> b | Some v \<Rightarrow> v)"

definition validateRuntime :: "runtime \<Rightarrow> thrown + unit" where
  "validateRuntime rt =
     (if batchSize rt < 1 then Inl (Error ''Batch size should be at least 1'')
      else if workers rt < 1 then Inl (Error ''Workers should be at least 1'')
      else if stateManagerUri rt = [] then Inl (Error ''State manager URI is not set'')
      else if key rt = [] then Inl (Error ''API key is not set'')
      else Inr ())"

text \<open>\<^verbatim>\<open>Array.prototype.join\<close>.\<close>

fun join :: "string \<Rightarrow> string list \<Rightarrow> string" where
  "join sep [] = []"
| "join sep [x] = x"
| "join sep (x # y # ys) = x @ sep @ join sep (y # ys)"

text \<open>\<^verbatim>\<open>Array.prototype.indexOf\<close>: the first index of the value, or -1.\<close>

fun indexOf :: "'a list \<Rightarrow> 'a \<Rightarrow> int" where
  "indexOf [] x = -1"
| "indexOf (y # ys) x =
     (if y = x then 0 else (let r = indexOf ys x in if r < 0 then -1 else r + 1))"

text \<open>\<^verbatim>\<open>names.filter((n, i) => names.indexOf(n) !== i)\<close>.\<close>

definition duplicates :: "string list \<Rightarrow> string list" where
  "duplicates names =
     map fst (filter (\<lambda>(n, i). indexOf names n \<noteq> int i) (zip names [0..<length names]))"

text \<open>
  \<^verbatim>\<open>checkStrings(schema, label)\<close>: one message for each field of the shape that is not a
  string schema. Reading \<^verbatim>\<open>shape\<close> of an absent schema throws a TypeError; a schema
  without a shape has no field to iterate over.
\<close>

definition must_be_string :: "string \<Rightarrow> string \<Rightarrow> string \<Rightarrow> string" where
  "must_be_string nodeName label k =
     nodeName @ ''.'' @ label @ '' field '' @ [CHR 0x27] @ k @ [CHR 0x27] @ '' must be string''"

definition checkStrings :: "string \<Rightarrow> zod \<Rightarrow> string \<Rightarrow> thrown + string list" where
  "checkStrings nodeName schema label =
     (case schema of
        NoSchema \<Rightarrow> Inl (Error ''Cannot read properties of undefined (reading 'shape')'')
      | Zod tn None p \<Rightarrow> Inr []
      | Zod tn (Some fs) p \<Rightarrow>
          Inr (map (\<lambda>kz. must_be_string nodeName label (fst kz))
                 (filter (\<lambda>kz. \<not> isZodStringSchema (snd kz)) fs)))"

text \<open>The messages pushed for one node before its three \<^verbatim>\<open>checkStrings\<close> calls.\<close>

definition node_checks :: "NodeCtor \<Rightarrow> string list" where
  "node_checks node =
     (if \<not> extends_BaseNode node then [name node @ '' does not inherit from BaseNode''] else []) @
     (if \<not> has_schema (Inputs node) then [name node @ '' missing Inputs schema''] else []) @
     (if \<not> has_schema (Outputs node) then [name node @ '' missing Outputs schema''] else []) @
     (if \<not> has_schema (Secrets node) then [name node @ '' missing Secrets schema''] else []) @
     (if \<not> isZodObjectSchema (Inputs node) then [name node @ ''.Inputs must be a ZodObject schema''] else []) @
     (if \<not> isZodObjectSchema (Outputs node) then [name node @ ''.Outputs must be a ZodObject schema''] else []) @
     (if \<not> isZodObjectSchema (Secrets node) then [name node @ ''.Secrets must be a ZodObject schema''] else [])"

text \<open>The body of the loop over the nodes, for one node, given the messages so far.\<close>

definition validateNode :: "NodeCtor \<Rightarrow> string list \<Rightarrow> thrown + string list" where
  "validateNode node errors =
     (case checkStrings (name node) (Inputs node) ''Inputs'' of
        Inl e \<Rightarrow> Inl e
      | Inr e1 \<Rightarrow>
     (case checkStrings (name node) (Outputs node) ''Outputs'' of
        Inl e \<Rightarrow> Inl e
      | Inr e2 \<Rightarrow>
     (case checkStrings (name node) (Secrets node) ''Secrets'' of
        Inl e \<Rightarrow> Inl e
      | Inr e3 \<Rightarrow> Inr (errors @ node_checks node @ e1 @ e2 @ e3))))"

fun validateNodes_loop :: "NodeCtor list \<Rightarrow> string list \<Rightarrow> thrown + string list" where
  "validateNodes_loop [] errors = Inr errors"
| "validateNodes_loop (node # ns) errors =
     (case validateNode node errors of
        Inl e \<Rightarrow> Inl e
      | Inr errors' \<Rightarrow> validateNodes_loop ns errors')"

text \<open>
  The messages collected by \<^verbatim>\<open>validateNodes\<close> when it reaches its last statement: those
  of the loop, then the line of the duplicated names.
\<close>

definition validation_errors :: "NodeCtor list \<Rightarrow> thrown + string list" where
  "validation_errors ns =
     (case validateNodes_loop ns [] of
        Inl e \<Rightarrow> Inl e
      | Inr errors \<Rightarrow>
          Inr (errors @
               (if duplicates (map name ns) \<noteq> []
                then [''Duplicate node class names found: '' @ join '', '' (duplicates (map name ns))]
                else [])))"

definition validateNodes :: "runtime \<Rightarrow> thrown + unit" where
  "validateNodes rt =
     (case validation_errors (nodes rt) of
        Inl e \<Rightarrow> Inl e
      | Inr errors \<Rightarrow>
          if errors \<noteq> []
          then Inl (Error (''Node validation errors:'' @ [CHR 0x0A] @ join [CHR 0x0A] errors))
          else Inr ())"

text \<open>
  The fields as the constructor sets them from its arguments, the options and the
  environment variables \<open>env\<close>, before it validates anything.
\<close>

definition runtime_fields :: "string \<Rightarrow> string \<Rightarrow> NodeCtor list \<Rightarrow> RuntimeOptions \<Rightarrow> process_env \<Rightarrow> runtime" where
  "runtime_fields ns nm nds options env =
     \<lparr>namespace = ns, runtime_name = nm, nodes = nds,
      stateManagerUri = nullish (opt_stateManagerUri options)
                          (nullish (EXOSPHERE_STATE_MANAGER_URI env) []),
      key = nullish (opt_key options) (nullish (EXOSPHERE_API_KEY env) []),
      stateManagerVersion = nullish (opt_stateManagerVersion options) ''v0'',
      batchSize = nullish (opt_batchSize options) 16,
      workers = nullish (opt_workers options) 4,
      pollInterval = nullish (opt_pollInterval options) 1000,
      stateQueue_capacity = 2 * nullish (opt_batchSize options) 16,
      nodeMapping = Object_fromEntries (map (\<lambda>n. (name n, n)) nds),
      nodeNames = map name nds\<rparr>"

text \<open>
  \<^verbatim>\<open>new Runtime(namespace, name, nodes, options)\<close>: the fields are set, then
  \<^verbatim>\<open>validateRuntime\<close> and \<^verbatim>\<open>validateNodes\<close> run in this order; the first throw leaves
  the constructor. (The closing \<^verbatim>\<open>logger.debug\<close> line does not change the result.)
\<close>

definition new_Runtime :: "string \<Rightarrow> string \<Rightarrow> NodeCtor list \<Rightarrow> RuntimeOptions \<Rightarrow> process_env \<Rightarrow> thrown + runtime" where
  "new_Runtime ns nm nds options env =
     (case validateRuntime (runtime_fields ns nm nds options env) of
        Inl e \<Rightarrow> Inl e
      | Inr u \<Rightarrow>
          (case validateNodes (runtime_fields ns nm nds options env) of
             Inl e \<Rightarrow> Inl e
           | Inr u' \<Rightarrow> Inr (runtime_fields ns nm nds options env)))"

text \<open>A node class that has all of its three static schema members.\<close>

definition declares_schemas :: "NodeCtor \<Rightarrow> bool" where
  "declares_schemas node =
     (has_schema (Inputs node) \<and> has_schema (Outputs node) \<and> has_schema (Secrets node))"

text \<open>The fields of a schema: those of its shape, none without a shape.\<close>

definition fields_of :: "zod \<Rightarrow> (string \<times> zod) list" where
  "fields_of z = (case z of Zod tn (Some fs) p \<Rightarrow> fs | _ \<Rightarrow> [])"

section \<open>runtime.ts: endpoints and reports\<close>

definition base_url :: "runtime \<Rightarrow> string" where
  "base_url rt = stateManagerUri rt @ ''/'' @ stateManagerVersion rt @ ''/namespace/'' @ namespace rt"

definition getEnqueueEndpoint :: "runtime \<Rightarrow> string" where
  "getEnqueueEndpoint rt = base_url rt @ ''/states/enqueue''"

definition getExecutedEndpoint :: "runtime \<Rightarrow> string \<Rightarrow> string" where
  "getExecutedEndpoint rt stateId = base_url rt @ ''/state/'' @ stateId @ ''/executed''"

definition getErroredEndpoint :: "runtime \<Rightarrow> string \<Rightarrow> string" where
  "getErroredEndpoint rt stateId = base_url rt @ ''/state/'' @ stateId @ ''/errored''"

definition getSecretsEndpoint :: "runtime \<Rightarrow> string \<Rightarrow> string" where
  "getSecretsEndpoint rt stateId = base_url rt @ ''/state/'' @ stateId @ ''/secrets''"

definition getPruneEndpoint :: "runtime \<Rightarrow> string \<Rightarrow> string" where
  "getPruneEndpoint rt stateId = base_url rt @ ''/state/'' @ stateId @ ''/prune''"

definition getRequeueAfterEndpoint :: "runtime \<Rightarrow> string \<Rightarrow> string" where
  "getRequeueAfterEndpoint rt stateId = base_url rt @ ''/state/'' @ stateId @ ''/re-enqueue-after''"

text \<open>The request of \<^verbatim>\<open>notifyExecuted(stateId, outputs)\<close>.\<close>

definition executed_request :: "runtime \<Rightarrow> string \<Rightarrow> js_value list \<Rightarrow> request" where
  "executed_request rt stateId outputs =
     \<lparr>url = getExecutedEndpoint rt stateId, http_method = POST, x_api_key = key rt,
      body = Some (JSON_stringify (JObj [(''outputs'', JArr outputs)]))\<rparr>"

definition notifyExecuted :: "runtime \<Rightarrow> network \<Rightarrow> string \<Rightarrow> js_value list \<Rightarrow> world \<Rightarrow> (thrown + unit) \<times> world" where
  "notifyExecuted rt net stateId outputs w =
     (case fetch net (executed_request rt stateId outputs) w of
        (Inl e, w') \<Rightarrow> (Inl e, w')
      | (Inr res, w') \<Rightarrow>
          if \<not> ok res
          then (Inr (), logger ERROR ''Runtime''
                  [S ''Failed to notify executed state '', S stateId, S '': '', S (text_of res)] w')
          else (Inr (), w'))"

text \<open>
  The request of \<^verbatim>\<open>notifyErrored(stateId, error)\<close>. The parameter is declared a string;
  the worker passes whatever the \<^verbatim>\<open>message\<close> property of the caught value is.
\<close>

definition errored_request :: "runtime \<Rightarrow> string \<Rightarrow> js_value \<Rightarrow> request" where
  "errored_request rt stateId err =
     \<lparr>url = getErroredEndpoint rt stateId, http_method = POST, x_api_key = key rt,
      body = Some (JSON_stringify (JObj [(''error'', err)]))\<rparr>"

definition notifyErrored :: "runtime \<Rightarrow> network \<Rightarrow> string \<Rightarrow> js_value \<Rightarrow> world \<Rightarrow> (thrown + unit) \<times> world" where
  "notifyErrored rt net stateId err w =
     (case fetch net (errored_request rt stateId err) w of
        (Inl e, w') \<Rightarrow> (Inl e, w')
      | (Inr res, w') \<Rightarrow>
          if \<not> ok res
          then (Inr (), logger ERROR ''Runtime''
                  [S ''Failed to notify errored state '', S stateId, S '': '', S (text_of res)] w')
          else (Inr (), w'))"

text \<open>
  \<^verbatim>\<open>getSecrets(stateId)\<close>: a GET; a response that is not ok, or a document without a
  \<^verbatim>\<open>secrets\<close> property, is logged and yields \<^verbatim>\<open>{}\<close>. The \<^verbatim>\<open>in\<close> operator throws on a
  document that is not an object.
\<close>

definition secrets_request :: "runtime \<Rightarrow> string \<Rightarrow> request" where
  "secrets_request rt stateId =
     \<lparr>url = getSecretsEndpoint rt stateId, http_method = GET, x_api_key = key rt, body = None\<rparr>"

definition getSecrets :: "runtime \<Rightarrow> network \<Rightarrow> string \<Rightarrow> world \<Rightarrow> (thrown + js_value) \<times> world" where
  "getSecrets rt net stateId w =
     (case fetch net (secrets_request rt stateId) w of
        (Inl e, w') \<Rightarrow> (Inl e, w')
      | (Inr res, w') \<Rightarrow>
          if \<not> ok res
          then (Inr (JObj []), logger ERROR ''Runtime''
                  [S ''Failed to get secrets for state '', S stateId, S '': '', S (text_of res)] w')
          else
            (case json_of res of
               Inl m \<Rightarrow> (Inl (Error m), w')
             | Inr (JObj kvs) \<Rightarrow>
                 (case map_of kvs ''secrets'' of
                    None \<Rightarrow> (Inr (JObj []), logger ERROR ''Runtime''
                               [S ([CHR 0x27] @ ''secrets' not found in response for state ''), S stateId] w')
                  | Some JNull \<Rightarrow> (Inr (JObj []), w')
                  | Some JUndefined \<Rightarrow> (Inr (JObj []), w')
                  | Some v \<Rightarrow> (Inr v, w'))
             | Inr (JArr xs) \<Rightarrow> (Inr (JObj []), logger ERROR ''Runtime''
                               [S ([CHR 0x27] @ ''secrets' not found in response for state ''), S stateId] w')
             | Inr other \<Rightarrow>
                 (Inl (Error ''Cannot use 'in' operator to search for 'secrets' in the response''), w')))"

text \<open>
  \<^verbatim>\<open>needSecrets(node)\<close>: \<^verbatim>\<open>Object.keys(node.Secrets.shape).length > 0\<close>, which throws a
  TypeError when the schema or its shape is absent.
\<close>

definition needSecrets :: "NodeCtor \<Rightarrow> thrown + bool" where
  "needSecrets node =
     (case Secrets node of
        NoSchema \<Rightarrow> Inl (Error ''Cannot read properties of undefined (reading 'shape')'')
      | Zod tn None p \<Rightarrow> Inl (Error ''Cannot convert undefined or null to object'')
      | Zod tn (Some fs) p \<Rightarrow> Inr (length fs > 0))"


section \<open>runtime.ts: the worker\<close>

record StateItem =
  state_id :: string
  node_name :: string
  inputs :: js_value

text \<open>
  \<^verbatim>\<open>this.nodeMapping[state.node_name]\<close>: an own property of the mapping is a registered
  node class; otherwise the lookup continues in \<^verbatim>\<open>Object.prototype\<close>, whose members are
  all truthy: \<^verbatim>\<open>constructor\<close> is the function \<^verbatim>\<open>Object\<close>, which \<^verbatim>\<open>new\<close> accepts, the
  others are methods or objects that \<^verbatim>\<open>new\<close> rejects with a TypeError; any other key is
  \<^verbatim>\<open>undefined\<close>.
\<close>

definition Object_prototype_keys :: "string list" where
  "Object_prototype_keys =
     [''constructor'', ''__defineGetter__'', ''__defineSetter__'', ''hasOwnProperty'',
      ''__lookupGetter__'', ''__lookupSetter__'', ''isPrototypeOf'', ''propertyIsEnumerable'',
      ''toString'', ''valueOf'', ''__proto__'', ''toLocaleString'']"

datatype mapping_value = Registered NodeCtor | Object_function | Not_a_constructor string | Undefined

definition nodeMapping_get :: "runtime \<Rightarrow> string \<Rightarrow> mapping_value" where
  "nodeMapping_get rt k =
     (case nodeMapping rt k of
        Some n \<Rightarrow> Registered n
      | None \<Rightarrow>
          if k = ''constructor'' then Object_function
          else if k \<in> set Object_prototype_keys then Not_a_constructor k
          else Undefined)"

text \<open>
  The function \<^verbatim>\<open>Object\<close> seen as a node class: it has none of the static schemas, and
  its instances have no \<^verbatim>\<open>_execute\<close>.
\<close>

definition Object_ctor :: NodeCtor where
  "Object_ctor = \<lparr>name = ''Object'', extends_BaseNode = False,
                   Inputs = NoSchema, Outputs = NoSchema, Secrets = NoSchema,
                   execute = (\<lambda>i s. Inl (Error ''node._execute is not a function''))\<rparr>"

text \<open>
  How a pass of the loop of a task ends: the task goes on, or a thrown value leaves its
  loop and rejects the promise of the task.
\<close>

datatype task_status = Running | Terminated thrown

text \<open>
  \<^verbatim>\<open>err.message\<close> for a caught value that is no \<^verbatim>\<open>Error\<close> instance: the \<^verbatim>\<open>message\<close>
  property of a thrown object; \<^verbatim>\<open>undefined\<close> for a thrown primitive or array; a
  TypeError for \<^verbatim>\<open>null\<close> and \<^verbatim>\<open>undefined\<close>.
\<close>

definition message_property :: "js_value \<Rightarrow> thrown + js_value" where
  "message_property v =
     (case v of
        JUndefined \<Rightarrow> Inl (Error ''Cannot read properties of undefined (reading 'message')'')
      | JNull \<Rightarrow> Inl (Error ''Cannot read properties of null (reading 'message')'')
      | JObj kvs \<Rightarrow> Inr (get_prop kvs ''message'')
      | _ \<Rightarrow> Inr JUndefined)"

text \<open>
  The first statements of the \<^verbatim>\<open>try\<close> block: the secrets are fetched only when the
  secret schema has a field.
\<close>

definition worker_secrets :: "runtime \<Rightarrow> network \<Rightarrow> NodeCtor \<Rightarrow> StateItem \<Rightarrow> world \<Rightarrow> (thrown + js_value) \<times> world" where
  "worker_secrets rt net nodeCls state w =
     (case needSecrets nodeCls of
        Inl e \<Rightarrow> (Inl e, w)
      | Inr False \<Rightarrow> (Inr (JObj []), w)
      | Inr True \<Rightarrow>
          (case getSecrets rt net (state_id state) w of
             (Inl e, w') \<Rightarrow> (Inl e, w')
           | (Inr secrets, w') \<Rightarrow>
               (Inr secrets, logger INFO ''Runtime''
                  [S ''Got secrets for state '', S (state_id state), S '' for node '', S (name nodeCls)] w')))"

text \<open>\<^verbatim>\<open>Array.isArray(outputs) ? outputs : [outputs]\<close>.\<close>

definition outArray :: "js_value \<Rightarrow> js_value list" where
  "outArray outputs = (case outputs of JArr xs \<Rightarrow> xs | _ \<Rightarrow> [outputs])"

text \<open>The \<^verbatim>\<open>try\<close> block of the worker: \<open>Inl\<close> is what reaches the \<^verbatim>\<open>catch\<close> clause.\<close>

definition worker_try :: "runtime \<Rightarrow> network \<Rightarrow> NodeCtor \<Rightarrow> StateItem \<Rightarrow> world \<Rightarrow> (thrown + unit) \<times> world" where
  "worker_try rt net nodeCls state w =
     (case worker_secrets rt net nodeCls state w of
        (Inl e, w1) \<Rightarrow> (Inl e, w1)
      | (Inr secrets, w1) \<Rightarrow>
          (case BaseNode_execute nodeCls (inputs state) secrets of
             Inl e \<Rightarrow> (Inl e, w1)
           | Inr outputs \<Rightarrow>
               (case notifyExecuted rt net (state_id state) (outArray outputs)
                       (logger INFO ''Runtime''
                          [S ''Got outputs for state '', S (state_id state), S '' for node '', S (name nodeCls)] w1) of
                  (Inl e, w2) \<Rightarrow> (Inl e, w2)
                | (Inr u, w2) \<Rightarrow>
                    (Inr (), logger INFO ''Runtime''
                       [S ''Notified executed state '', S (state_id state), S '' for node '', S (name nodeCls)] w2))))"

text \<open>
  The last branch of the \<^verbatim>\<open>catch\<close> clause, for the caught value \<open>err\<close> and what reading
  its \<^verbatim>\<open>message\<close> gives (\<open>m\<close>: the property, or the TypeError of reading it). The text of
  the log line is built from \<^verbatim>\<open>${err}\<close> first: when the caught value has no string, the
  TypeError is thrown before anything is logged or reported. Then the error is logged,
  the \<^verbatim>\<open>message\<close> is read and reported as errored, and the report is logged.
\<close>

definition worker_errored :: "runtime \<Rightarrow> network \<Rightarrow> NodeCtor \<Rightarrow> StateItem \<Rightarrow> thrown \<Rightarrow> thrown + js_value \<Rightarrow> world \<Rightarrow> task_status \<times> world" where
  "worker_errored rt net nodeCls state err m w =
     (if \<not> interpolates err
      then (Terminated (Error ''Cannot convert object to primitive value''), w)
      else
        (case m of
           Inl e \<Rightarrow>
             (Terminated e, logger ERROR ''Runtime''
                [S ''Error executing state '', S (state_id state), S '' for node '', S (name nodeCls),
                 S '': '', V err] w)
         | Inr msg \<Rightarrow>
             (case notifyErrored rt net (state_id state) msg
                     (logger ERROR ''Runtime''
                        [S ''Error executing state '', S (state_id state), S '' for node '', S (name nodeCls),
                         S '': '', V err] w) of
                (Inl e, w') \<Rightarrow> (Terminated e, w')
              | (Inr u, w') \<Rightarrow>
                  (Running, logger INFO ''Runtime''
                     [S ''Notified errored state '', S (state_id state), S '' for node '', S (name nodeCls)] w'))))"

text \<open>
  The \<^verbatim>\<open>catch\<close> clause: a signal sends itself, anything else is reported as errored.
  Whatever is thrown in here leaves the worker.
\<close>

definition worker_catch :: "runtime \<Rightarrow> network \<Rightarrow> NodeCtor \<Rightarrow> StateItem \<Rightarrow> thrown \<Rightarrow> world \<Rightarrow> task_status \<times> world" where
  "worker_catch rt net nodeCls state err w =
     (case err of
        PruneSignal d \<Rightarrow>
          (case PruneSignal_send d (getPruneEndpoint rt (state_id state)) (key rt) net
                  (logger INFO ''Runtime''
                     [S ''Pruning state '', S (state_id state), S '' for node '', S (name nodeCls)] w) of
             (Inl e, w') \<Rightarrow> (Terminated e, w')
           | (Inr u, w') \<Rightarrow>
               (Running, logger INFO ''Runtime''
                  [S ''Pruned state '', S (state_id state), S '' for node '', S (name nodeCls)] w'))
      | ReQueueAfterSignal ms \<Rightarrow>
          (case ReQueueAfterSignal_send ms (getRequeueAfterEndpoint rt (state_id state)) (key rt) net
                  (logger INFO ''Runtime''
                     [S ''Requeuing state '', S (state_id state), S '' for node '', S (name nodeCls),
                      S '' after '', N ms, S ''ms''] w) of
             (Inl e, w') \<Rightarrow> (Terminated e, w')
           | (Inr u, w') \<Rightarrow>
               (Running, logger INFO ''Runtime''
                  [S ''Requeued state '', S (state_id state), S '' for node '', S (name nodeCls),
                   S '' after '', N ms, S ''ms''] w'))
      | Error m \<Rightarrow> worker_errored rt net nodeCls state err (Inr (JStr m)) w
      | Thrown v \<Rightarrow> worker_errored rt net nodeCls state err (message_property v) w)"

text \<open>The statements from \<^verbatim>\<open>new nodeCls()\<close> to the end of the loop body.\<close>

definition worker_run_node :: "runtime \<Rightarrow> network \<Rightarrow> NodeCtor \<Rightarrow> StateItem \<Rightarrow> world \<Rightarrow> task_status \<times> world" where
  "worker_run_node rt net nodeCls state w =
     (case worker_try rt net nodeCls state
             (logger INFO ''Runtime''
                [S ''Executing state '', S (state_id state), S '' for node '', S (name nodeCls)] w) of
        (Inl err, w1) \<Rightarrow> worker_catch rt net nodeCls state err w1
      | (Inr u, w1) \<Rightarrow> (Running, w1))"

text \<open>
  One pass of the body of \<^verbatim>\<open>while (true)\<close> for the item that \<^verbatim>\<open>stateQueue.get()\<close>
  delivered. \<open>Running\<close>: the worker goes on to the next \<^verbatim>\<open>get\<close>; \<open>Terminated e\<close>: \<open>e\<close>
  left the loop and the promise of the worker is rejected.
\<close>

definition worker_item :: "runtime \<Rightarrow> network \<Rightarrow> StateItem \<Rightarrow> world \<Rightarrow> task_status \<times> world" where
  "worker_item rt net state w =
     (case nodeMapping_get rt (node_name state) of
        Undefined \<Rightarrow>
          (case notifyErrored rt net (state_id state) (JStr ''Unknown node'')
                  (logger ERROR ''Runtime'' [S ''Unknown node: '', S (node_name state)] w) of
             (Inl e, w') \<Rightarrow> (Terminated e, w')
           | (Inr u, w') \<Rightarrow> (Running, w'))
      | Not_a_constructor k \<Rightarrow> (Terminated (Error ''nodeCls is not a constructor''), w)
      | Object_function \<Rightarrow> worker_run_node rt net Object_ctor state w
      | Registered nodeCls \<Rightarrow> worker_run_node rt net nodeCls state w)"

text \<open>
  The worker on the items its successive \<^verbatim>\<open>get\<close> calls deliver. With no item left the
  worker is suspended in \<^verbatim>\<open>get\<close>.
\<close>

fun worker_loop :: "runtime \<Rightarrow> network \<Rightarrow> StateItem list \<Rightarrow> world \<Rightarrow> task_status \<times> world" where
  "worker_loop rt net [] w = (Running, w)"
| "worker_loop rt net (state # states) w =
     (case worker_item rt net state w of
        (Terminated e, w') \<Rightarrow> (Terminated e, w')
      | (Running, w') \<Rightarrow> worker_loop rt net states w')"

definition worker :: "runtime \<Rightarrow> network \<Rightarrow> int \<Rightarrow> StateItem list \<Rightarrow> world \<Rightarrow> task_status \<times> world" where
  "worker rt net idx states w =
     worker_loop rt net states
       (logger INFO ''Runtime''
          [S ''Starting worker thread '', N idx, S '' for nodes: '',
           S (join '', '' (map (\<lambda>n. namespace rt @ ''/'' @ name n) (nodes rt)))] w)"

text \<open>The calls of a trace that go to one URL.\<close>

definition calls_to :: "string \<Rightarrow> request list \<Rightarrow> request list" where
  "calls_to u rs = filter (\<lambda>r. url r = u) rs"

text \<open>The calls made between two worlds of one run.\<close>

definition new_calls :: "world \<Rightarrow> world \<Rightarrow> request list" where
  "new_calls w w' = drop (length (calls w)) (calls w')"

definition new_logged :: "world \<Rightarrow> world \<Rightarrow> (log_level \<times> string \<times> log_part list) list" where
  "new_logged w w' = drop (length (logged w)) (logged w')"

text \<open>
  What the user's \<^verbatim>\<open>execute\<close> resolves or rejects with for an item, together with the
  registered node class it belongs to, when the worker gets as far as calling it: the
  node is registered, the secrets are obtained, and the inputs and the secrets validate.
\<close>

definition execute_result :: "runtime \<Rightarrow> network \<Rightarrow> StateItem \<Rightarrow> world \<Rightarrow> (NodeCtor \<times> (thrown + js_value)) option" where
  "execute_result rt net state w =
     (case nodeMapping rt (node_name state) of
        None \<Rightarrow> None
      | Some nodeCls \<Rightarrow>
          (case worker_secrets rt net nodeCls state
                  (logger INFO ''Runtime''
                     [S ''Executing state '', S (state_id state), S '' for node '', S (name nodeCls)] w) of
             (Inl e, w1) \<Rightarrow> None
           | (Inr secrets, w1) \<Rightarrow>
               (case zod_parse (Inputs nodeCls) (inputs state) of
                  Inl e \<Rightarrow> None
                | Inr i \<Rightarrow>
                    (case zod_parse (Secrets nodeCls) secrets of
                       Inl e \<Rightarrow> None
                     | Inr s \<Rightarrow> Some (nodeCls, execute nodeCls i s)))))"

text \<open>The calls the worker makes for the secrets of an item of a node class.\<close>

definition secrets_calls :: "runtime \<Rightarrow> NodeCtor \<Rightarrow> StateItem \<Rightarrow> request list" where
  "secrets_calls rt nodeCls state =
     (case needSecrets nodeCls of
        Inr True \<Rightarrow> [secrets_request rt (state_id state)]
      | _ \<Rightarrow> [])"

section \<open>Example nodes, runtimes and networks\<close>

text \<open>
  A node class in the style of the SDK's tests: one string input \<^verbatim>\<open>x\<close>, one string
  output \<^verbatim>\<open>y\<close>, the given secret fields, and the given behaviour of \<^verbatim>\<open>execute\<close>.
\<close>

definition example_node :: "string \<Rightarrow> (string \<times> zod) list \<Rightarrow> (js_value \<Rightarrow> js_value \<Rightarrow> thrown + js_value) \<Rightarrow> NodeCtor" where
  "example_node nm secret_fields behaviour =
     \<lparr>name = nm, extends_BaseNode = True,
      Inputs = z_object [(''x'', z_string)],
      Outputs = z_object [(''y'', z_string)],
      Secrets = z_object secret_fields,
      execute = behaviour\<rparr>"

text \<open>\<^verbatim>\<open>async execute() { return { y: this.inputs.x } }\<close>.\<close>

definition echo :: "js_value \<Rightarrow> js_value \<Rightarrow> thrown + js_value" where
  "echo i s = (case i of JObj kvs \<Rightarrow> Inr (JObj [(''y'', get_prop kvs ''x'')]) | _ \<Rightarrow> Inr JUndefined)"

definition example_options :: RuntimeOptions where
  "example_options =
     \<lparr>opt_stateManagerUri = Some ''http://sm'', opt_key = Some ''k'', opt_batchSize = Some 2,
      opt_workers = Some 1, opt_stateManagerVersion = None, opt_pollInterval = Some 10\<rparr>"

definition no_env :: process_env where
  "no_env = \<lparr>EXOSPHERE_STATE_MANAGER_URI = None, EXOSPHERE_API_KEY = None\<rparr>"

text \<open>The runtime \<^verbatim>\<open>new Runtime('ns', 'rt', nodes, options)\<close> as the constructor sets its fields.\<close>

definition example_runtime :: "NodeCtor list \<Rightarrow> runtime" where
  "example_runtime nds =
     \<lparr>namespace = ''ns'', runtime_name = ''rt'', nodes = nds, stateManagerUri = ''http://sm'',
      key = ''k'', stateManagerVersion = ''v0'', batchSize = 2, workers = 1, pollInterval = 10,
      stateQueue_capacity = 4,
      nodeMapping = Object_fromEntries (map (\<lambda>n. (name n, n)) nds),
      nodeNames = map name nds\<rparr>"

definition example_item :: "string \<Rightarrow> StateItem" where
  "example_item nm = \<lparr>state_id = ''s1'', node_name = nm, inputs = JObj [(''x'', JStr ''hello'')]\<rparr>"

text \<open>
  Three networks: one that acknowledges every call, one that answers every call with
  status 500, and one on which every \<^verbatim>\<open>fetch\<close> rejects.
\<close>

definition net_ok :: network where
  "net_ok n req = Resolves \<lparr>status = 200, text_of = ''ok'', json_of = Inr (JObj [])\<rparr>"

definition net_500 :: network where
  "net_500 n req = Resolves \<lparr>status = 500, text_of = ''Internal Server Error'', json_of = Inr (JObj [])\<rparr>"

definition net_down :: network where
  "net_down n req = Rejects ''fetch failed''"



text \<open>Node classes whose \<^verbatim>\<open>execute\<close> throws: an \<^verbatim>\<open>Error\<close>, a prune signal, an arbitrary value.\<close>

definition failing_node :: NodeCtor where
  "failing_node = example_node ''Fail'' [(''api_key'', z_string)] (\<lambda>i s. Inl (Error ''boom''))"

definition pruning_node :: NodeCtor where
  "pruning_node = example_node ''Pruner'' [] (\<lambda>i s. Inl (new_PruneSignal (JObj [(''reason'', JStr ''test'')])))"

definition throwing_node :: "js_value \<Rightarrow> NodeCtor" where
  "throwing_node v = example_node ''Thrower'' [] (\<lambda>i s. Inl (Thrown v))"

text \<open>A node class whose \<^verbatim>\<open>execute\<close> resolves with the given value.\<close>

definition returning_node :: "js_value \<Rightarrow> NodeCtor" where
  "returning_node v = example_node ''Returner'' [] (\<lambda>i s. Inr v)"

text \<open>A network that acknowledges every call and answers with the secret \<^verbatim>\<open>api_key\<close>.\<close>

definition net_secrets :: network where
  "net_secrets n req =
     Resolves \<lparr>status = 200, text_of = ''ok'',
               json_of = Inr (JObj [(''secrets'', JObj [(''api_key'', JStr ''secret'')])])\<rparr>"

section \<open>runtime.ts: the poller\<close>

text \<open>
  \<^verbatim>\<open>enqueueCall\<close>: one POST of \<^verbatim>\<open>{nodes, batch_size}\<close>; a response that is not ok throws,
  otherwise the JSON document of the response is returned.
\<close>

definition enqueue_request :: "runtime \<Rightarrow> request" where
  "enqueue_request rt =
     \<lparr>url = getEnqueueEndpoint rt, http_method = POST, x_api_key = key rt,
      body = Some (JSON_stringify
               (JObj [(''nodes'', JArr (map JStr (nodeNames rt))), (''batch_size'', JNum (batchSize rt))]))\<rparr>"

definition enqueueCall :: "runtime \<Rightarrow> network \<Rightarrow> world \<Rightarrow> (thrown + js_value) \<times> world" where
  "enqueueCall rt net w =
     (case fetch net (enqueue_request rt) w of
        (Inl e, w') \<Rightarrow> (Inl e, w')
      | (Inr res, w') \<Rightarrow>
          if \<not> ok res then (Inl (Error (''Failed to enqueue states: '' @ text_of res)), w')
          else (case json_of res of Inl m \<Rightarrow> (Inl (Error m), w') | Inr d \<Rightarrow> (Inr d, w')))"

text \<open>
  \<^verbatim>\<open>data.states ?? []\<close> and what \<^verbatim>\<open>for (const state of states)\<close> iterates over: the
  elements of an array, the characters of a string; a value that is not iterable throws
  a TypeError, and so does the property access on \<^verbatim>\<open>null\<close> or \<^verbatim>\<open>undefined\<close>.
\<close>

definition states_of :: "js_value \<Rightarrow> thrown + js_value list" where
  "states_of d =
     (case d of
        JUndefined \<Rightarrow> Inl (Error ''Cannot read properties of undefined (reading 'states')'')
      | JNull \<Rightarrow> Inl (Error ''Cannot read properties of null (reading 'states')'')
      | JObj kvs \<Rightarrow>
          (case get_prop kvs ''states'' of
             JUndefined \<Rightarrow> Inr []
           | JNull \<Rightarrow> Inr []
           | JArr xs \<Rightarrow> Inr xs
           | JStr s \<Rightarrow> Inr (map (\<lambda>c. JStr [c]) s)
           | v \<Rightarrow> Inl (Error ''states is not iterable''))
      | v \<Rightarrow> Inr [])"

text \<open>
  The \<^verbatim>\<open>try\<close> block of one iteration of \<^verbatim>\<open>enqueue\<close>, given the queue as it is when its
  size is read: the items handed to \<^verbatim>\<open>stateQueue.put\<close>, in order, or what was thrown.
\<close>

definition enqueue_try :: "runtime \<Rightarrow> network \<Rightarrow> js_value AsyncQueue \<Rightarrow> world \<Rightarrow> (thrown + js_value list) \<times> world" where
  "enqueue_try rt net q w =
     (if int (size_queue q) < batchSize rt
      then (case enqueueCall rt net w of
              (Inl e, w') \<Rightarrow> (Inl e, w')
            | (Inr d, w') \<Rightarrow>
                (case states_of d of
                   Inl e \<Rightarrow> (Inl e, w')
                 | Inr states \<Rightarrow>
                     (Inr states, logger INFO ''Runtime''
                        [S ''Enqueued states: '', N (int (length states))] w')))
      else (Inr [], w))"

text \<open>
  One iteration of \<^verbatim>\<open>while (true)\<close> in \<^verbatim>\<open>enqueue\<close>, with the items it hands to \<^verbatim>\<open>put\<close>:
  the \<^verbatim>\<open>catch\<close> clause builds the log line from \<^verbatim>\<open>${e}\<close>, logs it and sleeps twice the
  poll interval (a caught value without a string would throw out of the clause and end
  the poller); the normal path sleeps the poll interval.
\<close>

definition enqueue_iteration :: "runtime \<Rightarrow> network \<Rightarrow> js_value AsyncQueue \<Rightarrow> world \<Rightarrow> task_status \<times> js_value list \<times> world" where
  "enqueue_iteration rt net q w =
     (case enqueue_try rt net q w of
        (Inl e, w') \<Rightarrow>
          if interpolates e
          then (Running, [], sleep (pollInterval rt * 2)
                  (logger ERROR ''Runtime'' [S ''Error enqueuing states: '', V e] w'))
          else (Terminated (Error ''Cannot convert object to primitive value''), [], w')
      | (Inr states, w') \<Rightarrow> (Running, states, sleep (pollInterval rt) w'))"

text \<open>
  The poller running alone for \<open>n\<close> iterations: the items of each iteration are put
  into the queue before the next iteration reads its size. A thrown value that leaves
  an iteration ends the loop.
\<close>

fun enqueue_loop :: "runtime \<Rightarrow> network \<Rightarrow> nat \<Rightarrow> (js_value AsyncQueue \<times> (nat \<times> js_value) list) \<times> world \<Rightarrow> task_status \<times> (js_value AsyncQueue \<times> (nat \<times> js_value) list) \<times> world" where
  "enqueue_loop rt net 0 (s, w) = (Running, s, w)"
| "enqueue_loop rt net (Suc n) (s, w) =
     (case enqueue_iteration rt net (fst s) w of
        (Terminated e, states, w') \<Rightarrow> (Terminated e, s, w')
      | (Running, states, w') \<Rightarrow> enqueue_loop rt net n (foldl run_op s (map Put states), w'))"

text \<open>A batch of two states of the node \<^verbatim>\<open>Echo\<close>, and a network that answers with it.\<close>

definition two_states :: "js_value list" where
  "two_states =
     [JObj [(''state_id'', JStr ''s1''), (''node_name'', JStr ''Echo''), (''inputs'', JObj [(''x'', JStr ''a'')])],
      JObj [(''state_id'', JStr ''s2''), (''node_name'', JStr ''Echo''), (''inputs'', JObj [(''x'', JStr ''b'')])]]"

definition net_states :: network where
  "net_states n req =
     Resolves \<lparr>status = 200, text_of = ''ok'', json_of = Inr (JObj [(''states'', JArr two_states)])\<rparr>"

text \<open>
  Three answers to the poller that are acknowledged and are no batch: a body that is
  no JSON text, the document \<^verbatim>\<open>null\<close>, and a document whose \<^verbatim>\<open>states\<close> is a number.
\<close>

definition net_html :: network where
  "net_html n req =
     Resolves \<lparr>status = 200, text_of = ''<html>'', json_of = Inl ''Unexpected token < in JSON at position 0''\<rparr>"

definition net_null :: network where
  "net_null n req = Resolves \<lparr>status = 200, text_of = ''null'', json_of = Inr JNull\<rparr>"

definition net_bad_states :: network where
  "net_bad_states n req =
     Resolves \<lparr>status = 200, text_of = ''ok'', json_of = Inr (JObj [(''states'', JNum 5)])\<rparr>"

section \<open>Properties of AsyncQueue\<close>

lemma puts_of_append: "puts_of (xs @ ys) = puts_of xs @ puts_of ys"
  by (induction xs rule: puts_of.induct) simp_all

lemma gets_of_append: "gets_of (xs @ ys) = gets_of xs @ gets_of ys"
  by (induction xs rule: gets_of.induct) simp_all

lemma run_ops_snoc: "run_ops c (ops @ [a]) = run_op (run_ops c ops) a"
  by (simp add: run_ops_def)

text \<open>
  The invariant of every reachable queue: a consumer waits only while the buffer is
  empty; the items delivered so far followed by the buffered ones are the items put, in
  the order they were put; the consumers served so far followed by the waiting ones are
  the callers of \<^verbatim>\<open>get\<close>, in the order of their calls.
\<close>

lemma run_ops_invariant:
  "(case run_ops c ops of (q, received) \<Rightarrow>
      (items q = [] \<or> resolvers q = []) \<and>
      map snd received @ items q = puts_of ops \<and>
      map fst received @ resolvers q = gets_of ops \<and>
      capacity q = c)"
proof (induction ops rule: rev_induct)
  case Nil
  show ?case by (simp add: run_ops_def new_AsyncQueue_def)
next
  case (snoc a ops)
  obtain q received where s: "run_ops c ops = (q, received)"
    by (cases "run_ops c ops")
  from snoc s have inv:
    "items q = [] \<or> resolvers q = []"
    "map snd received @ items q = puts_of ops"
    "map fst received @ resolvers q = gets_of ops"
    "capacity q = c"
    by simp_all
  show ?case
  proof (cases a)
    case (Put x)
    show ?thesis
    proof (cases "resolvers q")
      case Nil
      with inv Put s show ?thesis
        by (simp add: run_ops_snoc put_def puts_of_append gets_of_append)
    next
      case (Cons r rs)
      with inv have "items q = []" by simp
      with inv Cons Put s show ?thesis
        by (simp add: run_ops_snoc put_def puts_of_append gets_of_append)
    qed
  next
    case (Get k)
    show ?thesis
    proof (cases "items q")
      case Nil
      with inv Get s show ?thesis
        by (simp add: run_ops_snoc get_def puts_of_append gets_of_append)
    next
      case (Cons x xs)
      with inv have "resolvers q = []" by simp
      with inv Cons Get s show ?thesis
        by (simp add: run_ops_snoc get_def puts_of_append gets_of_append)
    qed
  qed
qed

text \<open>
  Claim C9. For every sequence of \<^verbatim>\<open>put\<close> and \<^verbatim>\<open>get\<close> operations on the work queue:
  \<^verbatim>\<open>put\<close> completes at once, handing the item to the oldest waiting consumer if there is
  one and appending it to the buffer otherwise, whatever the capacity given to the
  constructor; \<^verbatim>\<open>get\<close> returns the oldest buffered item when the buffer is not empty and
  otherwise registers the caller as waiting, to be served by a later \<^verbatim>\<open>put\<close>; the items
  are delivered in the order they were put; and \<^verbatim>\<open>size()\<close> counts the items put and not
  yet delivered, so the items handed over directly are not counted.
\<close>

theorem AsyncQueue_contract:
  "(resolvers q = r # rs \<longrightarrow> put q x = (q\<lparr>resolvers := rs\<rparr>, Some (r, x))) \<and>
   (resolvers q = [] \<longrightarrow>
      put q x = (q\<lparr>items := items q @ [x]\<rparr>, None) \<and>
      size_queue (fst (put q x)) = size_queue q + 1) \<and>
   (items q = y # ys \<longrightarrow> get q c = (Ready y, q\<lparr>items := ys\<rparr>)) \<and>
   (items q = [] \<longrightarrow> get q c = (Pending, q\<lparr>resolvers := resolvers q @ [c]\<rparr>)) \<and>
   (case run_ops cap ops of (q', received) \<Rightarrow>
      map snd received @ items q' = puts_of ops \<and>
      map fst received @ resolvers q' = gets_of ops \<and>
      (items q' = [] \<or> resolvers q' = []) \<and>
      size_queue q' + length received = length (puts_of ops) \<and>
      length received = min (length (puts_of ops)) (length (gets_of ops))) \<and>
   size_queue (fst (run_ops cap (map Put xs))) = length xs"
proof -
  have p1: "resolvers q = r # rs \<longrightarrow> put q x = (q\<lparr>resolvers := rs\<rparr>, Some (r, x))"
    by (simp add: put_def)
  have p2: "resolvers q = [] \<longrightarrow>
      put q x = (q\<lparr>items := items q @ [x]\<rparr>, None) \<and>
      size_queue (fst (put q x)) = size_queue q + 1"
    by (simp add: put_def size_queue_def)
  have g1: "items q = y # ys \<longrightarrow> get q c = (Ready y, q\<lparr>items := ys\<rparr>)"
    by (simp add: get_def)
  have g2: "items q = [] \<longrightarrow> get q c = (Pending, q\<lparr>resolvers := resolvers q @ [c]\<rparr>)"
    by (simp add: get_def)
  have fifo: "(case run_ops cap ops of (q', received) \<Rightarrow>
      map snd received @ items q' = puts_of ops \<and>
      map fst received @ resolvers q' = gets_of ops \<and>
      (items q' = [] \<or> resolvers q' = []) \<and>
      size_queue q' + length received = length (puts_of ops) \<and>
      length received = min (length (puts_of ops)) (length (gets_of ops)))"
  proof -
    obtain q' received where s: "run_ops cap ops = (q', received)"
      by (cases "run_ops cap ops")
    from run_ops_invariant [where c = cap and ops = ops] s have inv:
      "items q' = [] \<or> resolvers q' = []"
      "map snd received @ items q' = puts_of ops"
      "map fst received @ resolvers q' = gets_of ops"
      by simp_all
    from inv(2) have l1: "length received + length (items q') = length (puts_of ops)"
      by (metis length_append length_map)
    from inv(3) have l2: "length received + length (resolvers q') = length (gets_of ops)"
      by (metis length_append length_map)
    from inv(1) l1 l2 have "length received = min (length (puts_of ops)) (length (gets_of ops))"
      by auto
    with inv l1 s show ?thesis by (simp add: size_queue_def)
  qed
  have unbounded: "size_queue (fst (run_ops cap (map Put xs))) = length xs"
  proof -
    obtain q' received where s: "run_ops cap (map Put xs) = (q', received)"
      by (cases "run_ops cap (map Put xs)")
    have g: "gets_of (map Put xs) = []" by (induction xs) simp_all
    have p: "puts_of (map Put xs) = xs" by (induction xs) simp_all
    from run_ops_invariant [where c = cap and ops = "map Put xs"] s g p have
      "map snd received @ items q' = xs" "map fst received @ resolvers q' = []"
      by auto
    then have "items q' = xs" by simp
    with s show ?thesis by (simp add: size_queue_def)
  qed
  from p1 p2 g1 g2 fifo unbounded show ?thesis by blast
qed

theorem AsyncQueue_contract_witness:
  "put \<lparr>items = [], resolvers = [7, 8], capacity = 2\<rparr> (1::nat)
     = (\<lparr>items = [], resolvers = [8], capacity = 2\<rparr>, Some (7, 1)) \<and>
   put \<lparr>items = [1, 2, 3], resolvers = [], capacity = 2\<rparr> (4::nat)
     = (\<lparr>items = [1, 2, 3, 4], resolvers = [], capacity = 2\<rparr>, None) \<and>
   get \<lparr>items = [1, 2, 3], resolvers = [], capacity = 2\<rparr> 9
     = (Ready (1::nat), \<lparr>items = [2, 3], resolvers = [], capacity = 2\<rparr>) \<and>
   get \<lparr>items = [], resolvers = [7], capacity = 2\<rparr> 9
     = (Pending :: nat get_result, \<lparr>items = [], resolvers = [7, 9], capacity = 2\<rparr>) \<and>
   (case run_ops 1 [Put (10::nat), Put 20, Get 5, Put 30, Get 6, Get 7, Get 8, Put 40] of
      (q', received) \<Rightarrow> map snd received @ items q' = [10, 20, 30, 40] \<and>
                         map fst received @ resolvers q' = [5, 6, 7, 8])"
proof -
  have a: "put \<lparr>items = [], resolvers = [7, 8], capacity = 2\<rparr> (1::nat)
     = (\<lparr>items = [], resolvers = [8], capacity = 2\<rparr>, Some (7, 1))"
    using AsyncQueue_contract [where q = "\<lparr>items = [], resolvers = [7, 8], capacity = 2\<rparr>"
                                and r = 7 and rs = "[8]" and x = "1::nat" and c = 0 and cap = 0
                                and ops = "[]" and xs = "[]", THEN conjunct1]
    by simp
  have b: "put \<lparr>items = [1, 2, 3], resolvers = [], capacity = 2\<rparr> (4::nat)
     = (\<lparr>items = [1, 2, 3, 4], resolvers = [], capacity = 2\<rparr>, None) \<and>
   get \<lparr>items = [1, 2, 3], resolvers = [], capacity = 2\<rparr> 9
     = (Ready (1::nat), \<lparr>items = [2, 3], resolvers = [], capacity = 2\<rparr>) \<and>
   (case run_ops 1 [Put (10::nat), Put 20, Get 5, Put 30, Get 6, Get 7, Get 8, Put 40] of
      (q', received) \<Rightarrow> map snd received @ items q' = [10, 20, 30, 40] \<and>
                         map fst received @ resolvers q' = [5, 6, 7, 8])"
    using AsyncQueue_contract [where q = "\<lparr>items = [1, 2, 3], resolvers = [], capacity = 2\<rparr>"
                                and r = 0 and rs = "[]"
                                and x = "4::nat" and y = 1 and ys = "[2, 3]" and c = 9 and cap = 1
                                and ops = "[Put (10::nat), Put 20, Get 5, Put 30, Get 6, Get 7, Get 8, Put 40]"
                                and xs = "[]", THEN conjunct2]
    by (auto split: prod.splits)
  have c: "get \<lparr>items = [], resolvers = [7], capacity = 2\<rparr> 9
     = (Pending :: nat get_result, \<lparr>items = [], resolvers = [7, 9], capacity = 2\<rparr>)"
    using AsyncQueue_contract [where q = "\<lparr>items = [], resolvers = [7], capacity = 2\<rparr>"
                                and r = 7 and rs = "[]" and y = 0 and ys = "[]" and cap = 0
                                and x = "4::nat" and c = 9 and ops = "[]" and xs = "[]",
                              THEN conjunct2, THEN conjunct2, THEN conjunct2, THEN conjunct1]
    by simp
  from a b c show ?thesis by simp
qed

section \<open>Properties of the signals\<close>

text \<open>
  Claim C7. Constructing a \<^verbatim>\<open>ReQueueAfterSignal\<close> with a delay of at most 0 throws
  \<^verbatim>\<open>Delay must be greater than 0\<close> and yields no signal object, so there is nothing whose
  \<^verbatim>\<open>send\<close> could reach the network; for every positive delay the construction succeeds
  and the signal carries the delay unchanged.
\<close>

theorem ReQueueAfterSignal_delay:
  "(d \<le> 0 \<longrightarrow> new_ReQueueAfterSignal d = Inl (Error ''Delay must be greater than 0'') \<and>
              (\<forall>s. new_ReQueueAfterSignal d \<noteq> Inr s)) \<and>
   (0 < d \<longrightarrow> new_ReQueueAfterSignal d = Inr (ReQueueAfterSignal d) \<and>
              delayMs (ReQueueAfterSignal d) = d)"
  by (simp add: new_ReQueueAfterSignal_def)

theorem ReQueueAfterSignal_delay_witness:
  "new_ReQueueAfterSignal 0 = Inl (Error ''Delay must be greater than 0'') \<and>
   new_ReQueueAfterSignal (-5) = Inl (Error ''Delay must be greater than 0'') \<and>
   new_ReQueueAfterSignal 30000 = Inr (ReQueueAfterSignal 30000)"
  using ReQueueAfterSignal_delay [of 0] ReQueueAfterSignal_delay [of "-5"]
        ReQueueAfterSignal_delay [of 30000]
  by simp

section \<open>Properties of the worker\<close>

subsection \<open>The calls of each operation\<close>

lemma calls_logger [simp]: "calls (logger lv nm parts w) = calls w"
  by (simp add: logger_def)

lemma logged_logger [simp]: "logged (logger lv nm parts w) = logged w @ [(lv, nm, parts)]"
  by (simp add: logger_def)

lemma fetch_calls: "calls (snd (fetch net req w)) = calls w @ [req]"
  by (simp add: fetch_def split: fetch_result.splits)

lemma fetch_logged: "logged (snd (fetch net req w)) = logged w"
  by (simp add: fetch_def split: fetch_result.splits)

lemma notifyErrored_calls:
  "calls (snd (notifyErrored rt net sid m w)) = calls w @ [errored_request rt sid m]"
  using fetch_calls [of net "errored_request rt sid m" w]
  by (auto simp: notifyErrored_def split: prod.splits sum.splits)

lemma notifyExecuted_calls:
  "calls (snd (notifyExecuted rt net sid outs w)) = calls w @ [executed_request rt sid outs]"
  using fetch_calls [of net "executed_request rt sid outs" w]
  by (auto simp: notifyExecuted_def split: prod.splits sum.splits)

lemma getSecrets_calls:
  "calls (snd (getSecrets rt net sid w)) = calls w @ [secrets_request rt sid]"
  using fetch_calls [of net "secrets_request rt sid" w]
  by (auto simp: getSecrets_def split: prod.splits sum.splits js_value.splits option.splits)

lemma PruneSignal_send_calls:
  "calls (snd (PruneSignal_send d ep k net w)) = calls w @ [prune_request d ep k]"
  using fetch_calls [of net "prune_request d ep k" w]
  by (auto simp: PruneSignal_send_def split: prod.splits sum.splits)

lemma ReQueueAfterSignal_send_calls:
  "calls (snd (ReQueueAfterSignal_send ms ep k net w)) = calls w @ [requeue_request ms ep k]"
  using fetch_calls [of net "requeue_request ms ep k" w]
  by (auto simp: ReQueueAfterSignal_send_def split: prod.splits sum.splits)

lemma worker_secrets_calls:
  "calls (snd (worker_secrets rt net n st w)) = calls w @ secrets_calls rt n st"
  using getSecrets_calls [of rt net "state_id st" w]
  by (auto simp: worker_secrets_def secrets_calls_def split: prod.splits sum.splits bool.splits)

lemma interpolates_simps [simp]:
  "interpolates (Error m)"
  "interpolates (PruneSignal d)"
  "interpolates (ReQueueAfterSignal ms)"
  "interpolates (Thrown v) = converts v"
  by (simp_all add: interpolates_def)

lemma worker_errored_calls:
  "interpolates err \<Longrightarrow>
   calls (snd (worker_errored rt net n st err (Inr m) w)) = calls w @ [errored_request rt (state_id st) m]"
  using notifyErrored_calls [of rt net "state_id st" m "logger ERROR ''Runtime''
          [S ''Error executing state '', S (state_id st), S '' for node '', S (name n), S '': '', V err] w"]
  by (auto simp: worker_errored_def split: prod.splits sum.splits)

lemma worker_errored_TypeError:
  "interpolates err \<Longrightarrow>
   worker_errored rt net n st err (Inl e) w =
     (Terminated e, logger ERROR ''Runtime''
        [S ''Error executing state '', S (state_id st), S '' for node '', S (name n), S '': '', V err] w)"
  by (simp add: worker_errored_def)

text \<open>The endpoints of one item differ pairwise.\<close>

lemma endpoints_distinct:
  "getErroredEndpoint rt sid \<noteq> getExecutedEndpoint rt sid"
  "getErroredEndpoint rt sid \<noteq> getSecretsEndpoint rt sid"
  "getErroredEndpoint rt sid \<noteq> getPruneEndpoint rt sid"
  "getErroredEndpoint rt sid \<noteq> getRequeueAfterEndpoint rt sid"
  "getExecutedEndpoint rt sid \<noteq> getSecretsEndpoint rt sid"
  "getExecutedEndpoint rt sid \<noteq> getPruneEndpoint rt sid"
  "getExecutedEndpoint rt sid \<noteq> getRequeueAfterEndpoint rt sid"
  "getSecretsEndpoint rt sid \<noteq> getPruneEndpoint rt sid"
  "getSecretsEndpoint rt sid \<noteq> getRequeueAfterEndpoint rt sid"
  "getPruneEndpoint rt sid \<noteq> getRequeueAfterEndpoint rt sid"
  by (simp_all add: getErroredEndpoint_def getExecutedEndpoint_def getSecretsEndpoint_def
        getPruneEndpoint_def getRequeueAfterEndpoint_def)

lemma url_requests [simp]:
  "url (errored_request rt sid m) = getErroredEndpoint rt sid"
  "url (executed_request rt sid outs) = getExecutedEndpoint rt sid"
  "url (secrets_request rt sid) = getSecretsEndpoint rt sid"
  "url (prune_request d ep k) = ep"
  "url (requeue_request ms ep k) = ep"
  by (simp_all add: errored_request_def executed_request_def secrets_request_def
        prune_request_def requeue_request_def)

lemma calls_to_secrets_calls:
  "u \<noteq> getSecretsEndpoint rt (state_id st) \<Longrightarrow> calls_to u (secrets_calls rt n st) = []"
  by (simp add: calls_to_def secrets_calls_def split: sum.splits bool.splits)

lemma calls_to_append: "calls_to u (xs @ ys) = calls_to u xs @ calls_to u ys"
  by (simp add: calls_to_def)

lemma calls_to_single: "calls_to u [r] = (if url r = u then [r] else [])"
  by (simp add: calls_to_def)

lemma new_calls_append: "calls w' = calls w @ xs \<Longrightarrow> new_calls w w' = xs"
  by (simp add: new_calls_def)

text \<open>
  When \<^verbatim>\<open>execute\<close> is reached, the \<^verbatim>\<open>try\<close> block has made the calls for the secrets and
  continues with the outcome of \<^verbatim>\<open>execute\<close>.
\<close>

lemma execute_result_registered:
  "execute_result rt net st w = Some (n, r) \<Longrightarrow> nodeMapping_get rt (node_name st) = Registered n"
  by (auto simp: execute_result_def nodeMapping_get_def split: option.splits prod.splits sum.splits)

lemma worker_item_registered:
  "nodeMapping_get rt (node_name st) = Registered n \<Longrightarrow>
   worker_item rt net st w = worker_run_node rt net n st w"
  by (simp add: worker_item_def)

lemma execute_result_raises:
  assumes "execute_result rt net st w = Some (n, Inl e)"
  shows "\<exists>w1. worker_item rt net st w = worker_catch rt net n st e w1 \<and>
              calls w1 = calls w @ secrets_calls rt n st"
proof -
  let ?w0 = "logger INFO ''Runtime''
       [S ''Executing state '', S (state_id st), S '' for node '', S (name n)] w"
  from assms have reg: "nodeMapping rt (node_name st) = Some n"
    by (auto simp: execute_result_def split: option.splits prod.splits sum.splits)
  obtain r w1 where ws: "worker_secrets rt net n st ?w0 = (r, w1)"
    by (cases "worker_secrets rt net n st ?w0")
  from assms reg ws obtain sec i s where
    r: "r = Inr sec" and i: "zod_parse (Inputs n) (inputs st) = Inr i"
    and s: "zod_parse (Secrets n) sec = Inr s" and ex: "execute n i s = Inl e"
    by (auto simp: execute_result_def split: option.splits prod.splits sum.splits)
  have tr: "worker_try rt net n st ?w0 = (Inl e, w1)"
    using ws r i s ex by (simp add: worker_try_def BaseNode_execute_def)
  have c: "calls w1 = calls w @ secrets_calls rt n st"
    using worker_secrets_calls [of rt net n st ?w0] ws by simp
  from execute_result_registered [OF assms]
  have "worker_item rt net st w = worker_run_node rt net n st w"
    by (rule worker_item_registered)
  with tr c show ?thesis by (auto simp: worker_run_node_def)
qed

lemma execute_result_returns:
  assumes "execute_result rt net st w = Some (n, Inr v)"
  shows "\<exists>w1. worker_run_node rt net n st w =
               (case BaseNode_outputs n v of
                  Inl e \<Rightarrow> worker_catch rt net n st e w1
                | Inr outputs \<Rightarrow>
                    (case notifyExecuted rt net (state_id st) (outArray outputs)
                            (logger INFO ''Runtime''
                               [S ''Got outputs for state '', S (state_id st), S '' for node '', S (name n)] w1) of
                       (Inl e, w2) \<Rightarrow> worker_catch rt net n st e w2
                     | (Inr u, w2) \<Rightarrow>
                         (Running, logger INFO ''Runtime''
                            [S ''Notified executed state '', S (state_id st), S '' for node '', S (name n)] w2))) \<and>
              worker_item rt net st w = worker_run_node rt net n st w \<and>
              calls w1 = calls w @ secrets_calls rt n st"
proof -
  let ?w0 = "logger INFO ''Runtime''
       [S ''Executing state '', S (state_id st), S '' for node '', S (name n)] w"
  from assms have reg: "nodeMapping rt (node_name st) = Some n"
    by (auto simp: execute_result_def split: option.splits prod.splits sum.splits)
  obtain r w1 where ws: "worker_secrets rt net n st ?w0 = (r, w1)"
    by (cases "worker_secrets rt net n st ?w0")
  from assms reg ws obtain sec i s where
    r: "r = Inr sec" and i: "zod_parse (Inputs n) (inputs st) = Inr i"
    and s: "zod_parse (Secrets n) sec = Inr s" and ex: "execute n i s = Inr v"
    by (auto simp: execute_result_def split: option.splits prod.splits sum.splits)
  have be: "BaseNode_execute n (inputs st) sec = BaseNode_outputs n v"
    using i s ex by (simp add: BaseNode_execute_def)
  have c: "calls w1 = calls w @ secrets_calls rt n st"
    using worker_secrets_calls [of rt net n st ?w0] ws by simp
  have item: "worker_item rt net st w = worker_run_node rt net n st w"
    using execute_result_registered [OF assms] by (rule worker_item_registered)
  show ?thesis
    using ws r be c item
    by (auto simp: worker_run_node_def worker_try_def split: sum.splits prod.splits intro!: exI [of _ w1])
qed

lemma notifyErrored_answered:
  assumes "net (length (calls w)) (errored_request rt sid m) = Resolves res"
  shows "notifyErrored rt net sid m w =
           (Inr (), if ok res then w\<lparr>calls := calls w @ [errored_request rt sid m]\<rparr>
                    else logger ERROR ''Runtime''
                           [S ''Failed to notify errored state '', S sid, S '': '', S (text_of res)]
                           (w\<lparr>calls := calls w @ [errored_request rt sid m]\<rparr>))"
  using assms by (simp add: notifyErrored_def fetch_def)

lemma notifyExecuted_answered:
  assumes "net (length (calls w)) (executed_request rt sid outs) = Resolves res"
  shows "notifyExecuted rt net sid outs w =
           (Inr (), if ok res then w\<lparr>calls := calls w @ [executed_request rt sid outs]\<rparr>
                    else logger ERROR ''Runtime''
                           [S ''Failed to notify executed state '', S sid, S '': '', S (text_of res)]
                           (w\<lparr>calls := calls w @ [executed_request rt sid outs]\<rparr>))"
  using assms by (simp add: notifyExecuted_def fetch_def)

lemma worker_catch_calls:
  "\<exists>xs. calls (snd (worker_catch rt net n st e w)) = calls w @ xs \<and>
        calls_to (getExecutedEndpoint rt (state_id st)) xs = []"
proof (cases e)
  case (PruneSignal d)
  then show ?thesis
    using PruneSignal_send_calls [of d "getPruneEndpoint rt (state_id st)" "key rt" net
            "logger INFO ''Runtime'' [S ''Pruning state '', S (state_id st), S '' for node '', S (name n)] w"]
          endpoints_distinct [of rt "state_id st"]
    by (auto simp: worker_catch_def calls_to_single split: prod.splits sum.splits)
next
  case (ReQueueAfterSignal ms)
  then show ?thesis
    using ReQueueAfterSignal_send_calls [of ms "getRequeueAfterEndpoint rt (state_id st)" "key rt" net
            "logger INFO ''Runtime'' [S ''Requeuing state '', S (state_id st), S '' for node '', S (name n),
               S '' after '', N ms, S ''ms''] w"]
          endpoints_distinct [of rt "state_id st"]
    by (auto simp: worker_catch_def calls_to_single split: prod.splits sum.splits)
next
  case (Error m)
  then show ?thesis
    using worker_errored_calls [of e rt net n st "JStr m" w] endpoints_distinct [of rt "state_id st"]
    by (auto simp: worker_catch_def calls_to_single)
next
  case (Thrown v)
  show ?thesis
  proof (cases "interpolates e")
    case False
    with Thrown show ?thesis
      by (simp add: worker_catch_def worker_errored_def calls_to_def)
  next
    case True
    show ?thesis
    proof (cases "message_property v")
      case (Inl t)
      with Thrown True show ?thesis
        by (simp add: worker_catch_def worker_errored_TypeError calls_to_def)
    next
      case (Inr m)
      with Thrown True show ?thesis
        using worker_errored_calls [of e rt net n st m w] endpoints_distinct [of rt "state_id st"]
        by (auto simp: worker_catch_def calls_to_single calls_to_def)
    qed
  qed
qed

subsection \<open>Evaluating the examples\<close>

lemma example_node_sel:
  "name (example_node nm sf b) = nm"
  "extends_BaseNode (example_node nm sf b) = True"
  "Inputs (example_node nm sf b) = z_object [(''x'', z_string)]"
  "Outputs (example_node nm sf b) = z_object [(''y'', z_string)]"
  "Secrets (example_node nm sf b) = z_object sf"
  "execute (example_node nm sf b) = b"
  by (simp_all add: example_node_def)

lemmas example_defs =
  example_runtime_def example_item_def example_node_sel Object_fromEntries_def
  z_object_def z_string_def zod_parse_def get_prop_def needSecrets_def
  worker_secrets_def getSecrets_def fetch_def secrets_request_def world0_def
  net_ok_def net_500_def net_down_def ok_def logger_def

subsection \<open>Errors and signals raised by a handler\<close>

text \<open>
  Claim C2. When the \<^verbatim>\<open>execute\<close> of the handler of a work item raises an \<^verbatim>\<open>Error\<close> that
  is neither signal, the worker makes, besides the call for the secrets if the node has
  secret fields, exactly one call: to the errored endpoint of the item, with the body
  \<^verbatim>\<open>{error: message}\<close>; it makes no call to the executed endpoint of the item.
\<close>

theorem generic_error_reported_once:
  assumes "execute_result rt net st w = Some (n, Inl (Error msg))"
  shows "new_calls w (snd (worker_item rt net st w))
           = secrets_calls rt n st @ [errored_request rt (state_id st) (JStr msg)] \<and>
         calls_to (getErroredEndpoint rt (state_id st)) (new_calls w (snd (worker_item rt net st w)))
           = [errored_request rt (state_id st) (JStr msg)] \<and>
         body (errored_request rt (state_id st) (JStr msg)) = Some (JObj [(''error'', JStr msg)]) \<and>
         calls_to (getExecutedEndpoint rt (state_id st)) (new_calls w (snd (worker_item rt net st w))) = []"
proof -
  from execute_result_raises [OF assms] obtain w1 where
    item: "worker_item rt net st w = worker_catch rt net n st (Error msg) w1"
    and c1: "calls w1 = calls w @ secrets_calls rt n st"
    by blast
  have "calls (snd (worker_item rt net st w)) =
          calls w @ secrets_calls rt n st @ [errored_request rt (state_id st) (JStr msg)]"
    using item c1 worker_errored_calls [of "Error msg" rt net n st "JStr msg" w1]
    by (simp add: worker_catch_def)
  then have nc: "new_calls w (snd (worker_item rt net st w))
           = secrets_calls rt n st @ [errored_request rt (state_id st) (JStr msg)]"
    by (rule new_calls_append)
  have b: "body (errored_request rt (state_id st) (JStr msg)) = Some (JObj [(''error'', JStr msg)])"
    by (simp add: errored_request_def)
  show ?thesis
    using nc b endpoints_distinct [of rt "state_id st"]
    by (simp add: calls_to_append calls_to_single calls_to_secrets_calls)
qed

theorem generic_error_reported_once_witness:
  "calls_to (getErroredEndpoint (example_runtime [failing_node]) ''s1'')
     (new_calls world0 (snd (worker_item (example_runtime [failing_node]) net_secrets (example_item ''Fail'') world0)))
     = [errored_request (example_runtime [failing_node]) ''s1'' (JStr ''boom'')] \<and>
   calls_to (getExecutedEndpoint (example_runtime [failing_node]) ''s1'')
     (new_calls world0 (snd (worker_item (example_runtime [failing_node]) net_secrets (example_item ''Fail'') world0)))
     = [] \<and>
   secrets_calls (example_runtime [failing_node]) failing_node (example_item ''Fail'')
     = [secrets_request (example_runtime [failing_node]) ''s1'']"
proof -
  have h: "execute_result (example_runtime [failing_node]) net_secrets (example_item ''Fail'') world0
             = Some (failing_node, Inl (Error ''boom''))"
    by (simp add: execute_result_def example_defs failing_node_def net_secrets_def)
  have s: "secrets_calls (example_runtime [failing_node]) failing_node (example_item ''Fail'')
     = [secrets_request (example_runtime [failing_node]) ''s1'']"
    by (simp add: secrets_calls_def example_defs failing_node_def)
  have i: "state_id (example_item ''Fail'') = ''s1''"
    by (simp add: example_item_def)
  from generic_error_reported_once [OF h, unfolded i s] s show ?thesis by blast
qed

text \<open>
  Claim C3. When the \<^verbatim>\<open>execute\<close> of the handler of a work item raises a prune signal,
  the worker makes exactly one call to the prune endpoint of the item, with the body
  \<^verbatim>\<open>{data}\<close> of the signal, and no call to the errored or executed endpoints. The
  \<^verbatim>\<open>send\<close> method of the signal makes exactly one call, and throws
  \<^verbatim>\<open>Failed to send prune signal to ...\<close> when the status of the response is not 2xx.
\<close>

theorem prune_reported_once:
  assumes "execute_result rt net st w = Some (n, Inl (PruneSignal d))"
  shows "new_calls w (snd (worker_item rt net st w))
           = secrets_calls rt n st @ [prune_request d (getPruneEndpoint rt (state_id st)) (key rt)] \<and>
         calls_to (getPruneEndpoint rt (state_id st)) (new_calls w (snd (worker_item rt net st w)))
           = [prune_request d (getPruneEndpoint rt (state_id st)) (key rt)] \<and>
         body (prune_request d (getPruneEndpoint rt (state_id st)) (key rt))
           = Some (JSON_stringify (JObj [(''data'', d)])) \<and>
         calls_to (getErroredEndpoint rt (state_id st)) (new_calls w (snd (worker_item rt net st w))) = [] \<and>
         calls_to (getExecutedEndpoint rt (state_id st)) (new_calls w (snd (worker_item rt net st w))) = [] \<and>
         new_calls w' (snd (PruneSignal_send d' ep k net' w')) = [prune_request d' ep k] \<and>
         (\<forall>res. net' (length (calls w')) (prune_request d' ep k) = Resolves res \<and>
                \<not> (200 \<le> status res \<and> status res \<le> 299) \<longrightarrow>
                fst (PruneSignal_send d' ep k net' w') = Inl (Error (''Failed to send prune signal to '' @ ep)))"
proof -
  from execute_result_raises [OF assms] obtain w1 where
    item: "worker_item rt net st w = worker_catch rt net n st (PruneSignal d) w1"
    and c1: "calls w1 = calls w @ secrets_calls rt n st"
    by blast
  have "calls (snd (worker_item rt net st w)) =
          calls w @ secrets_calls rt n st @ [prune_request d (getPruneEndpoint rt (state_id st)) (key rt)]"
    using item c1
      PruneSignal_send_calls [of d "getPruneEndpoint rt (state_id st)" "key rt" net
        "logger INFO ''Runtime'' [S ''Pruning state '', S (state_id st), S '' for node '', S (name n)] w1"]
    by (auto simp: worker_catch_def split: prod.splits sum.splits)
  then have nc: "new_calls w (snd (worker_item rt net st w))
           = secrets_calls rt n st @ [prune_request d (getPruneEndpoint rt (state_id st)) (key rt)]"
    by (rule new_calls_append)
  have b: "body (prune_request d (getPruneEndpoint rt (state_id st)) (key rt))
           = Some (JSON_stringify (JObj [(''data'', d)]))"
    by (simp add: prune_request_def)
  have worker_part:
    "calls_to (getPruneEndpoint rt (state_id st)) (new_calls w (snd (worker_item rt net st w)))
           = [prune_request d (getPruneEndpoint rt (state_id st)) (key rt)] \<and>
     calls_to (getErroredEndpoint rt (state_id st)) (new_calls w (snd (worker_item rt net st w))) = [] \<and>
     calls_to (getExecutedEndpoint rt (state_id st)) (new_calls w (snd (worker_item rt net st w))) = []"
    using nc endpoints_distinct [of rt "state_id st"]
    by (simp add: calls_to_append calls_to_single calls_to_secrets_calls)
  have one: "new_calls w' (snd (PruneSignal_send d' ep k net' w')) = [prune_request d' ep k]"
    using PruneSignal_send_calls [of d' ep k net' w'] by (rule new_calls_append)
  have fail: "\<forall>res. net' (length (calls w')) (prune_request d' ep k) = Resolves res \<and>
                \<not> (200 \<le> status res \<and> status res \<le> 299) \<longrightarrow>
                fst (PruneSignal_send d' ep k net' w') = Inl (Error (''Failed to send prune signal to '' @ ep))"
    by (simp add: PruneSignal_send_def fetch_def ok_def)
  from nc b worker_part one fail show ?thesis by blast
qed

theorem prune_reported_once_witness:
  "calls_to (getPruneEndpoint (example_runtime [pruning_node]) ''s1'')
     (new_calls world0 (snd (worker_item (example_runtime [pruning_node]) net_ok (example_item ''Pruner'') world0)))
     = [prune_request (JObj [(''reason'', JStr ''test'')])
          (getPruneEndpoint (example_runtime [pruning_node]) ''s1'') ''k''] \<and>
   calls_to (getErroredEndpoint (example_runtime [pruning_node]) ''s1'')
     (new_calls world0 (snd (worker_item (example_runtime [pruning_node]) net_ok (example_item ''Pruner'') world0)))
     = [] \<and>
   calls_to (getExecutedEndpoint (example_runtime [pruning_node]) ''s1'')
     (new_calls world0 (snd (worker_item (example_runtime [pruning_node]) net_ok (example_item ''Pruner'') world0)))
     = [] \<and>
   fst (PruneSignal_send (JObj []) ''http://sm/v0/namespace/ns/state/s1/prune'' ''k'' net_500 world0)
     = Inl (Error ''Failed to send prune signal to http://sm/v0/namespace/ns/state/s1/prune'')"
proof -
  have h: "execute_result (example_runtime [pruning_node]) net_ok (example_item ''Pruner'') world0
             = Some (pruning_node, Inl (PruneSignal (JObj [(''reason'', JStr ''test'')])))"
    by (simp add: execute_result_def example_defs pruning_node_def new_PruneSignal_def)
  have i: "state_id (example_item ''Pruner'') = ''s1''" "key (example_runtime [pruning_node]) = ''k''"
    by (simp_all add: example_item_def example_runtime_def)
  have r: "net_500 (length (calls world0))
             (prune_request (JObj []) ''http://sm/v0/namespace/ns/state/s1/prune'' ''k'')
           = Resolves \<lparr>status = 500, text_of = ''Internal Server Error'', json_of = Inr (JObj [])\<rparr> \<and>
           \<not> (200 \<le> status \<lparr>status = 500, text_of = ''Internal Server Error'', json_of = Inr (JObj [])\<rparr> \<and>
              status \<lparr>status = 500, text_of = ''Internal Server Error'', json_of = Inr (JObj [])\<rparr> \<le> 299)"
    by (simp add: net_500_def)
  note T = prune_reported_once [OF h, unfolded i, where d' = "JObj []" and net' = net_500 and w' = world0
         and ep = "''http://sm/v0/namespace/ns/state/s1/prune''" and k = "''k''"]
  note a = T [THEN conjunct2, THEN conjunct1]
  note b = T [THEN conjunct2, THEN conjunct2, THEN conjunct2, THEN conjunct1]
  note c = T [THEN conjunct2, THEN conjunct2, THEN conjunct2, THEN conjunct2, THEN conjunct1]
  note d = T [THEN conjunct2, THEN conjunct2, THEN conjunct2, THEN conjunct2, THEN conjunct2,
              THEN conjunct2, THEN spec, THEN mp, OF r]
  show ?thesis
    by (intro conjI) (rule a, rule b, rule c, use d in simp)
qed

subsection \<open>Items of an unregistered node\<close>

text \<open>
  Claim C6 says that every item whose node name matches no registered handler is
  reported as errored with the message \<^verbatim>\<open>Unknown node\<close>. The lookup
  \<^verbatim>\<open>this.nodeMapping[state.node_name]\<close> is a property access on a plain object: for the
  unregistered name \<^verbatim>\<open>toString\<close> it finds the method inherited from
  \<^verbatim>\<open>Object.prototype\<close>, the test \<^verbatim>\<open>!nodeCls\<close> fails, and \<^verbatim>\<open>new nodeCls()\<close> throws outside
  the \<^verbatim>\<open>try\<close> block: the worker terminates and nothing is reported.
\<close>

theorem unknown_node_prototype_key:
  "worker_item (example_runtime [example_node ''Echo'' [] echo]) net_ok
     \<lparr>state_id = ''s1'', node_name = ''toString'', inputs = JObj []\<rparr> world0
   = (Terminated (Error ''nodeCls is not a constructor''), world0)"
  by (simp add: worker_item_def nodeMapping_get_def Object_prototype_keys_def
        example_runtime_def Object_fromEntries_def example_node_sel)

text \<open>
  An item whose node name is neither registered nor a member of \<^verbatim>\<open>Object.prototype\<close>:
  the one call is the errored report with the message \<^verbatim>\<open>Unknown node\<close>, and the worker
  goes on when the report is answered.
\<close>

lemma unknown_node_reported:
  assumes "nodeMapping_get rt (node_name st) = Undefined"
  shows "new_calls w (snd (worker_item rt net st w))
           = [errored_request rt (state_id st) (JStr ''Unknown node'')] \<and>
         body (errored_request rt (state_id st) (JStr ''Unknown node''))
           = Some (JObj [(''error'', JStr ''Unknown node'')]) \<and>
         ((\<exists>res. net (length (calls w)) (errored_request rt (state_id st) (JStr ''Unknown node'')) = Resolves res)
            \<longrightarrow> fst (worker_item rt net st w) = Running)"
proof -
  let ?w0 = "logger ERROR ''Runtime'' [S ''Unknown node: '', S (node_name st)] w"
  have "calls (snd (worker_item rt net st w)) = calls w @ [errored_request rt (state_id st) (JStr ''Unknown node'')]"
    using assms notifyErrored_calls [of rt net "state_id st" "JStr ''Unknown node''" ?w0]
    by (auto simp: worker_item_def split: prod.splits sum.splits)
  then have a: "new_calls w (snd (worker_item rt net st w))
           = [errored_request rt (state_id st) (JStr ''Unknown node'')]"
    by (rule new_calls_append)
  have b: "body (errored_request rt (state_id st) (JStr ''Unknown node''))
           = Some (JObj [(''error'', JStr ''Unknown node'')])"
    by (simp add: errored_request_def)
  have c: "(\<exists>res. net (length (calls w)) (errored_request rt (state_id st) (JStr ''Unknown node'')) = Resolves res)
            \<longrightarrow> fst (worker_item rt net st w) = Running"
  proof
    assume "\<exists>res. net (length (calls w)) (errored_request rt (state_id st) (JStr ''Unknown node'')) = Resolves res"
    then obtain res where
      "net (length (calls ?w0)) (errored_request rt (state_id st) (JStr ''Unknown node'')) = Resolves res"
      by auto
    from notifyErrored_answered [where net = net and w = ?w0, OF this] assms
    show "fst (worker_item rt net st w) = Running"
      by (simp add: worker_item_def)
  qed
  from a b c show ?thesis by (intro conjI)
qed

subsection \<open>Results returned by a handler\<close>

lemma parse_each_length: "parse_each z rs = Inr vs \<Longrightarrow> length vs = length rs"
  by (induction rs arbitrary: vs) (auto split: sum.splits)

lemma parse_each_nth:
  "parse_each z rs = Inr vs \<Longrightarrow> i < length rs \<Longrightarrow> zod_parse z (rs ! i) = Inr (vs ! i)"
proof (induction rs arbitrary: vs i)
  case Nil
  then show ?case by simp
next
  case (Cons r rs)
  then show ?case by (cases i) (auto split: sum.splits)
qed

lemma calls_to_Cons:
  "calls_to u (r # rs) = (if url r = u then r # calls_to u rs else calls_to u rs)"
  by (simp add: calls_to_def)

lemma notifyExecuted_resolved:
  "net (length (calls w)) (executed_request rt sid outs) = Resolves res \<Longrightarrow>
   fst (notifyExecuted rt net sid outs w) = Inr ()"
  by (simp add: notifyExecuted_def fetch_def)

lemma notifyErrored_resolved:
  "net (length (calls w)) (errored_request rt sid m) = Resolves res \<Longrightarrow>
   fst (notifyErrored rt net sid m w) = Inr ()"
  by (simp add: notifyErrored_def fetch_def)

text \<open>The item whose \<^verbatim>\<open>execute\<close> returned and whose outputs validate.\<close>

lemma outputs_reported:
  assumes er: "execute_result rt net st w = Some (n, Inr r)"
    and bo: "BaseNode_outputs n r = Inr outs"
  shows "calls_to (getExecutedEndpoint rt (state_id st)) (new_calls w (snd (worker_item rt net st w)))
           = [executed_request rt (state_id st) (outArray outs)]"
proof -
  from execute_result_returns [OF er] bo obtain w1 where
    run: "worker_item rt net st w =
            (case notifyExecuted rt net (state_id st) (outArray outs)
                    (logger INFO ''Runtime''
                       [S ''Got outputs for state '', S (state_id st), S '' for node '', S (name n)] w1) of
               (Inl e, w2) \<Rightarrow> worker_catch rt net n st e w2
             | (Inr u, w2) \<Rightarrow>
                 (Running, logger INFO ''Runtime''
                    [S ''Notified executed state '', S (state_id st), S '' for node '', S (name n)] w2))"
    and c1: "calls w1 = calls w @ secrets_calls rt n st"
    by auto
  let ?w1' = "logger INFO ''Runtime''
                [S ''Got outputs for state '', S (state_id st), S '' for node '', S (name n)] w1"
  obtain x w2 where ne: "notifyExecuted rt net (state_id st) (outArray outs) ?w1' = (x, w2)"
    by (cases "notifyExecuted rt net (state_id st) (outArray outs) ?w1'")
  have c2: "calls w2 = calls w @ secrets_calls rt n st @ [executed_request rt (state_id st) (outArray outs)]"
    using notifyExecuted_calls [of rt net "state_id st" "outArray outs" ?w1'] ne c1 by simp
  have "\<exists>xs. calls (snd (worker_item rt net st w)) =
               calls w @ secrets_calls rt n st @ [executed_request rt (state_id st) (outArray outs)] @ xs \<and>
             calls_to (getExecutedEndpoint rt (state_id st)) xs = []"
  proof (cases x)
    case (Inl e)
    from worker_catch_calls [of rt net n st e w2] obtain xs where
      "calls (snd (worker_catch rt net n st e w2)) = calls w2 @ xs"
      "calls_to (getExecutedEndpoint rt (state_id st)) xs = []"
      by blast
    with run ne Inl c2 show ?thesis by simp
  next
    case (Inr u)
    with run ne c2 show ?thesis by (simp add: calls_to_def)
  qed
  then obtain xs where
    c: "calls (snd (worker_item rt net st w)) =
          calls w @ (secrets_calls rt n st @ [executed_request rt (state_id st) (outArray outs)] @ xs)"
    and xs: "calls_to (getExecutedEndpoint rt (state_id st)) xs = []"
    by auto
  from new_calls_append [OF c] xs endpoints_distinct [of rt "state_id st"]
  show ?thesis
    by (simp add: calls_to_append calls_to_Cons calls_to_secrets_calls)
qed

lemma outputs_reported_running:
  assumes er: "execute_result rt net st w = Some (n, Inr r)"
    and bo: "BaseNode_outputs n r = Inr outs"
    and res: "net (length (calls w) + length (secrets_calls rt n st))
                (executed_request rt (state_id st) (outArray outs)) = Resolves res"
  shows "fst (worker_item rt net st w) = Running \<and>
         new_calls w (snd (worker_item rt net st w))
           = secrets_calls rt n st @ [executed_request rt (state_id st) (outArray outs)]"
proof -
  from execute_result_returns [OF er] bo obtain w1 where
    run: "worker_item rt net st w =
            (case notifyExecuted rt net (state_id st) (outArray outs)
                    (logger INFO ''Runtime''
                       [S ''Got outputs for state '', S (state_id st), S '' for node '', S (name n)] w1) of
               (Inl e, w2) \<Rightarrow> worker_catch rt net n st e w2
             | (Inr u, w2) \<Rightarrow>
                 (Running, logger INFO ''Runtime''
                    [S ''Notified executed state '', S (state_id st), S '' for node '', S (name n)] w2))"
    and c1: "calls w1 = calls w @ secrets_calls rt n st"
    by auto
  let ?w1' = "logger INFO ''Runtime''
                [S ''Got outputs for state '', S (state_id st), S '' for node '', S (name n)] w1"
  obtain x w2 where ne: "notifyExecuted rt net (state_id st) (outArray outs) ?w1' = (x, w2)"
    by (cases "notifyExecuted rt net (state_id st) (outArray outs) ?w1'")
  have "fst (notifyExecuted rt net (state_id st) (outArray outs) ?w1') = Inr ()"
    using res c1 by (intro notifyExecuted_resolved [where res = res]) simp
  with ne have x: "x = Inr ()" by simp
  have c2: "calls w2 = calls w @ secrets_calls rt n st @ [executed_request rt (state_id st) (outArray outs)]"
    using notifyExecuted_calls [of rt net "state_id st" "outArray outs" ?w1'] ne c1 by simp
  from run ne x have wi: "worker_item rt net st w = (Running, logger INFO ''Runtime''
                    [S ''Notified executed state '', S (state_id st), S '' for node '', S (name n)] w2)"
    by simp
  with c2 show ?thesis by (simp add: new_calls_def)
qed

lemma outputs_rejected:
  assumes er: "execute_result rt net st w = Some (n, Inr r)"
    and bo: "BaseNode_outputs n r = Inl (Error m)"
  shows "new_calls w (snd (worker_item rt net st w))
           = secrets_calls rt n st @ [errored_request rt (state_id st) (JStr m)]"
proof -
  from execute_result_returns [OF er] bo obtain w1 where
    run: "worker_item rt net st w = worker_catch rt net n st (Error m) w1"
    and c1: "calls w1 = calls w @ secrets_calls rt n st"
    by auto
  have "calls (snd (worker_item rt net st w)) =
          calls w @ secrets_calls rt n st @ [errored_request rt (state_id st) (JStr m)]"
    using run c1 worker_errored_calls [of "Error m" rt net n st "JStr m" w1]
    by (simp add: worker_catch_def)
  then show ?thesis by (rule new_calls_append)
qed

text \<open>
  Claim C1, as the code has it. When the \<^verbatim>\<open>execute\<close> of the handler of an item resolves:
  a plain object that validates is reported as the one-element array of the validated
  object; an array whose elements validate is reported as the array of the validated
  elements, of the same length and in the same order (the empty array as the empty
  payload); \<^verbatim>\<open>null\<close> is reported as \<^verbatim>\<open>[{}]\<close>; when the orchestrator answers the report,
  nothing is sent to the errored endpoint and the worker goes on. Any other result,
  \<^verbatim>\<open>undefined\<close> included, is validated as one value: when the output schema rejects it,
  the item is reported as errored and not as executed.
\<close>

theorem executed_payload:
  assumes "execute_result rt net st w = Some (n, Inr r)"
  shows
    "(\<forall>kvs out. r = JObj kvs \<and> zod_parse (Outputs n) r = Inr (JObj out) \<longrightarrow>
        calls_to (getExecutedEndpoint rt (state_id st)) (new_calls w (snd (worker_item rt net st w)))
          = [executed_request rt (state_id st) [JObj out]]) \<and>
     (\<forall>rs vs. r = JArr rs \<and> parse_each (Outputs n) rs = Inr vs \<longrightarrow>
        calls_to (getExecutedEndpoint rt (state_id st)) (new_calls w (snd (worker_item rt net st w)))
          = [executed_request rt (state_id st) vs] \<and>
        length vs = length rs \<and>
        (\<forall>i. i < length rs \<longrightarrow> zod_parse (Outputs n) (rs ! i) = Inr (vs ! i))) \<and>
     (r = JNull \<longrightarrow>
        calls_to (getExecutedEndpoint rt (state_id st)) (new_calls w (snd (worker_item rt net st w)))
          = [executed_request rt (state_id st) [JObj []]] \<and>
        body (executed_request rt (state_id st) [JObj []]) = Some (JObj [(''outputs'', JArr [JObj []])])) \<and>
     (\<forall>outs res. BaseNode_outputs n r = Inr outs \<and>
        net (length (calls w) + length (secrets_calls rt n st))
          (executed_request rt (state_id st) (outArray outs)) = Resolves res \<longrightarrow>
        fst (worker_item rt net st w) = Running \<and>
        calls_to (getErroredEndpoint rt (state_id st)) (new_calls w (snd (worker_item rt net st w))) = []) \<and>
     (\<forall>m. r \<noteq> JNull \<and> (\<forall>rs. r \<noteq> JArr rs) \<and> zod_parse (Outputs n) r = Inl (Error m) \<longrightarrow>
        calls_to (getExecutedEndpoint rt (state_id st)) (new_calls w (snd (worker_item rt net st w))) = [] \<and>
        calls_to (getErroredEndpoint rt (state_id st)) (new_calls w (snd (worker_item rt net st w)))
          = [errored_request rt (state_id st) (JStr m)])"
proof -
  have obj: "\<forall>kvs out. r = JObj kvs \<and> zod_parse (Outputs n) r = Inr (JObj out) \<longrightarrow>
        calls_to (getExecutedEndpoint rt (state_id st)) (new_calls w (snd (worker_item rt net st w)))
          = [executed_request rt (state_id st) [JObj out]]"
  proof (intro allI impI)
    fix kvs out
    assume a: "r = JObj kvs \<and> zod_parse (Outputs n) r = Inr (JObj out)"
    then have "BaseNode_outputs n r = Inr (JObj out)"
      by (auto simp: BaseNode_outputs_def)
    from outputs_reported [OF assms this]
    show "calls_to (getExecutedEndpoint rt (state_id st)) (new_calls w (snd (worker_item rt net st w)))
          = [executed_request rt (state_id st) [JObj out]]"
      by (simp add: outArray_def)
  qed
  have arr: "\<forall>rs vs. r = JArr rs \<and> parse_each (Outputs n) rs = Inr vs \<longrightarrow>
        calls_to (getExecutedEndpoint rt (state_id st)) (new_calls w (snd (worker_item rt net st w)))
          = [executed_request rt (state_id st) vs] \<and>
        length vs = length rs \<and>
        (\<forall>i. i < length rs \<longrightarrow> zod_parse (Outputs n) (rs ! i) = Inr (vs ! i))"
  proof (intro allI impI)
    fix rs vs
    assume a: "r = JArr rs \<and> parse_each (Outputs n) rs = Inr vs"
    then have "BaseNode_outputs n r = Inr (JArr vs)"
      by (simp add: BaseNode_outputs_def)
    from outputs_reported [OF assms this]
    have "calls_to (getExecutedEndpoint rt (state_id st)) (new_calls w (snd (worker_item rt net st w)))
          = [executed_request rt (state_id st) vs]"
      by (simp add: outArray_def)
    with a show "calls_to (getExecutedEndpoint rt (state_id st)) (new_calls w (snd (worker_item rt net st w)))
          = [executed_request rt (state_id st) vs] \<and>
        length vs = length rs \<and>
        (\<forall>i. i < length rs \<longrightarrow> zod_parse (Outputs n) (rs ! i) = Inr (vs ! i))"
      using parse_each_length [of "Outputs n" rs vs] parse_each_nth [of "Outputs n" rs vs]
      by auto
  qed
  have null: "r = JNull \<longrightarrow>
        calls_to (getExecutedEndpoint rt (state_id st)) (new_calls w (snd (worker_item rt net st w)))
          = [executed_request rt (state_id st) [JObj []]] \<and>
        body (executed_request rt (state_id st) [JObj []]) = Some (JObj [(''outputs'', JArr [JObj []])])"
  proof
    assume "r = JNull"
    then have "BaseNode_outputs n r = Inr (JObj [])"
      by (simp add: BaseNode_outputs_def)
    from outputs_reported [OF assms this]
    show "calls_to (getExecutedEndpoint rt (state_id st)) (new_calls w (snd (worker_item rt net st w)))
          = [executed_request rt (state_id st) [JObj []]] \<and>
        body (executed_request rt (state_id st) [JObj []]) = Some (JObj [(''outputs'', JArr [JObj []])])"
      by (simp add: outArray_def executed_request_def)
  qed
  have acked: "\<forall>outs res. BaseNode_outputs n r = Inr outs \<and>
        net (length (calls w) + length (secrets_calls rt n st))
          (executed_request rt (state_id st) (outArray outs)) = Resolves res \<longrightarrow>
        fst (worker_item rt net st w) = Running \<and>
        calls_to (getErroredEndpoint rt (state_id st)) (new_calls w (snd (worker_item rt net st w))) = []"
  proof (intro allI impI)
    fix outs res
    assume a: "BaseNode_outputs n r = Inr outs \<and>
        net (length (calls w) + length (secrets_calls rt n st))
          (executed_request rt (state_id st) (outArray outs)) = Resolves res"
    from outputs_reported_running [OF assms conjunct1 [OF a] conjunct2 [OF a]]
    show "fst (worker_item rt net st w) = Running \<and>
        calls_to (getErroredEndpoint rt (state_id st)) (new_calls w (snd (worker_item rt net st w))) = []"
      using endpoints_distinct [of rt "state_id st"]
      by (simp add: calls_to_append calls_to_single calls_to_secrets_calls)
  qed
  have rejected: "\<forall>m. r \<noteq> JNull \<and> (\<forall>rs. r \<noteq> JArr rs) \<and> zod_parse (Outputs n) r = Inl (Error m) \<longrightarrow>
        calls_to (getExecutedEndpoint rt (state_id st)) (new_calls w (snd (worker_item rt net st w))) = [] \<and>
        calls_to (getErroredEndpoint rt (state_id st)) (new_calls w (snd (worker_item rt net st w)))
          = [errored_request rt (state_id st) (JStr m)]"
  proof (intro allI impI)
    fix m
    assume a: "r \<noteq> JNull \<and> (\<forall>rs. r \<noteq> JArr rs) \<and> zod_parse (Outputs n) r = Inl (Error m)"
    then have "BaseNode_outputs n r = Inl (Error m)"
      by (cases r) (simp_all add: BaseNode_outputs_def)
    from outputs_rejected [OF assms this]
    show "calls_to (getExecutedEndpoint rt (state_id st)) (new_calls w (snd (worker_item rt net st w))) = [] \<and>
        calls_to (getErroredEndpoint rt (state_id st)) (new_calls w (snd (worker_item rt net st w)))
          = [errored_request rt (state_id st) (JStr m)]"
      using endpoints_distinct [of rt "state_id st"]
      by (simp add: calls_to_append calls_to_single calls_to_secrets_calls)
  qed
  from obj arr null acked rejected show ?thesis by (intro conjI)
qed

lemma execute_result_returner:
  "execute_result (example_runtime [returning_node v]) net_ok (example_item ''Returner'') world0
     = Some (returning_node v, Inr v)"
  by (simp add: execute_result_def example_defs returning_node_def)

lemma Outputs_returner: "Outputs (returning_node v) = z_object [(''y'', z_string)]"
  by (simp add: returning_node_def example_node_sel)

theorem executed_payload_witness:
  "calls_to (getExecutedEndpoint (example_runtime [returning_node (JObj [(''y'', JStr ''a''), (''z'', JNum 1)])]) ''s1'')
     (new_calls world0 (snd (worker_item (example_runtime [returning_node (JObj [(''y'', JStr ''a''), (''z'', JNum 1)])])
                               net_ok (example_item ''Returner'') world0)))
     = [executed_request (example_runtime [returning_node (JObj [(''y'', JStr ''a''), (''z'', JNum 1)])]) ''s1''
          [JObj [(''y'', JStr ''a'')]]] \<and>
   calls_to (getExecutedEndpoint (example_runtime [returning_node (JArr [JObj [(''y'', JStr ''a'')], JObj [(''y'', JStr ''b'')]])]) ''s1'')
     (new_calls world0 (snd (worker_item (example_runtime [returning_node (JArr [JObj [(''y'', JStr ''a'')], JObj [(''y'', JStr ''b'')]])])
                               net_ok (example_item ''Returner'') world0)))
     = [executed_request (example_runtime [returning_node (JArr [JObj [(''y'', JStr ''a'')], JObj [(''y'', JStr ''b'')]])]) ''s1''
          [JObj [(''y'', JStr ''a'')], JObj [(''y'', JStr ''b'')]]] \<and>
   calls_to (getExecutedEndpoint (example_runtime [returning_node JNull]) ''s1'')
     (new_calls world0 (snd (worker_item (example_runtime [returning_node JNull]) net_ok (example_item ''Returner'') world0)))
     = [executed_request (example_runtime [returning_node JNull]) ''s1'' [JObj []]] \<and>
   fst (worker_item (example_runtime [returning_node JNull]) net_ok (example_item ''Returner'') world0) = Running \<and>
   calls_to (getErroredEndpoint (example_runtime [returning_node (JNum 3)]) ''s1'')
     (new_calls world0 (snd (worker_item (example_runtime [returning_node (JNum 3)]) net_ok (example_item ''Returner'') world0)))
     = [errored_request (example_runtime [returning_node (JNum 3)]) ''s1'' (JStr ''ZodError: expected object'')]"
proof -
  have i: "state_id (example_item ''Returner'') = ''s1''"
    by (simp add: example_item_def)
  let ?o = "JObj [(''y'', JStr ''a''), (''z'', JNum 1)]"
  let ?a = "JArr [JObj [(''y'', JStr ''a'')], JObj [(''y'', JStr ''b'')]]"
  have po: "?o = JObj [(''y'', JStr ''a''), (''z'', JNum 1)] \<and>
            zod_parse (Outputs (returning_node ?o)) ?o = Inr (JObj [(''y'', JStr ''a'')])"
    by (simp add: Outputs_returner z_object_def z_string_def zod_parse_def get_prop_def)
  have pa: "?a = JArr [JObj [(''y'', JStr ''a'')], JObj [(''y'', JStr ''b'')]] \<and>
            parse_each (Outputs (returning_node ?a)) [JObj [(''y'', JStr ''a'')], JObj [(''y'', JStr ''b'')]]
              = Inr [JObj [(''y'', JStr ''a'')], JObj [(''y'', JStr ''b'')]]"
    by (simp add: Outputs_returner z_object_def z_string_def zod_parse_def get_prop_def)
  have pn: "BaseNode_outputs (returning_node JNull) JNull = Inr (JObj []) \<and>
            net_ok (length (calls world0) + length (secrets_calls (example_runtime [returning_node JNull])
                       (returning_node JNull) (example_item ''Returner'')))
              (executed_request (example_runtime [returning_node JNull]) ''s1'' (outArray (JObj [])))
              = Resolves \<lparr>status = 200, text_of = ''ok'', json_of = Inr (JObj [])\<rparr>"
    by (simp add: BaseNode_outputs_def net_ok_def)
  have pr: "JNum 3 \<noteq> JNull \<and> (\<forall>rs. JNum 3 \<noteq> JArr rs) \<and>
            zod_parse (Outputs (returning_node (JNum 3))) (JNum 3) = Inl (Error ''ZodError: expected object'')"
    by (simp add: Outputs_returner z_object_def zod_parse_def)
  note T1 = executed_payload [OF execute_result_returner [of ?o], unfolded i,
              THEN conjunct1, THEN spec, THEN spec, THEN mp, OF po]
  note T2 = executed_payload [OF execute_result_returner [of ?a], unfolded i,
              THEN conjunct2, THEN conjunct1, THEN spec, THEN spec, THEN mp, OF pa, THEN conjunct1]
  note T3 = executed_payload [OF execute_result_returner [of JNull], unfolded i,
              THEN conjunct2, THEN conjunct2, THEN conjunct1, THEN mp, OF refl, THEN conjunct1]
  note T4 = executed_payload [OF execute_result_returner [of JNull], unfolded i,
              THEN conjunct2, THEN conjunct2, THEN conjunct2, THEN conjunct1, THEN spec, THEN spec,
              THEN mp, OF pn, THEN conjunct1]
  note T5 = executed_payload [OF execute_result_returner [of "JNum 3"], unfolded i,
              THEN conjunct2, THEN conjunct2, THEN conjunct2, THEN conjunct2, THEN spec,
              THEN mp, OF pr, THEN conjunct2]
  show ?thesis
    by (intro conjI) (rule T1, rule T2, rule T3, rule T4, rule T5)
qed

text \<open>
  Claim C1 as stated fails for a handler that returns nothing (\<^verbatim>\<open>undefined\<close>): the
  object schema of the outputs rejects it, and the only call is the errored report.
  And for a handler that returns the empty array the payload is \<^verbatim>\<open>[]\<close>.
\<close>

theorem absent_result_counterexample:
  "calls (snd (worker_item (example_runtime [returning_node JUndefined]) net_ok (example_item ''Returner'') world0))
     = [errored_request (example_runtime [returning_node JUndefined]) ''s1'' (JStr ''ZodError: expected object'')] \<and>
   calls_to (getExecutedEndpoint (example_runtime [returning_node JUndefined]) ''s1'')
     (calls (snd (worker_item (example_runtime [returning_node JUndefined]) net_ok (example_item ''Returner'') world0)))
     = [] \<and>
   map body (calls (snd (worker_item (example_runtime [returning_node (JArr [])]) net_ok
                           (example_item ''Returner'') world0)))
     = [Some (JObj [(''outputs'', JArr [])])]"
proof -
  have a: "calls (snd (worker_item (example_runtime [returning_node JUndefined]) net_ok (example_item ''Returner'') world0))
     = [errored_request (example_runtime [returning_node JUndefined]) ''s1'' (JStr ''ZodError: expected object'')]"
    by (simp add: worker_item_def nodeMapping_get_def worker_run_node_def worker_try_def
        worker_catch_def worker_errored_def BaseNode_execute_def BaseNode_outputs_def
        notifyErrored_def
        example_defs returning_node_def)
  have b: "calls_to (getExecutedEndpoint (example_runtime [returning_node JUndefined]) ''s1'')
     (calls (snd (worker_item (example_runtime [returning_node JUndefined]) net_ok (example_item ''Returner'') world0)))
     = []"
    using endpoints_distinct [of "example_runtime [returning_node JUndefined]" "''s1''"]
    by (simp add: a calls_to_single)
  have c: "map body (calls (snd (worker_item (example_runtime [returning_node (JArr [])]) net_ok
                           (example_item ''Returner'') world0)))
     = [Some (JObj [(''outputs'', JArr [])])]"
    by (simp add: worker_item_def nodeMapping_get_def worker_run_node_def worker_try_def
        BaseNode_execute_def BaseNode_outputs_def outArray_def
        notifyExecuted_def executed_request_def
        example_defs returning_node_def)
  from a b c show ?thesis by (intro conjI)
qed

subsection \<open>Values thrown by a handler that are no Error instances\<close>

text \<open>
  Claim C10, as the code has it by design. When the \<^verbatim>\<open>execute\<close> of the handler rejects with
  a value \<open>v\<close> that is neither a signal nor an \<^verbatim>\<open>Error\<close> instance, that is not \<^verbatim>\<open>null\<close> or
  \<^verbatim>\<open>undefined\<close> and that has a string conversion, the worker makes, besides the call for
  the secrets, exactly one call: the errored report of the item, whose error field is
  \<^verbatim>\<open>v.message\<close>. For a primitive or an array (a thrown string, say) and for an object
  without a \<^verbatim>\<open>message\<close> property the field is \<^verbatim>\<open>undefined\<close> and the body of the report is
  \<^verbatim>\<open>{}\<close>; for an object with a \<^verbatim>\<open>message\<close> property the report carries that property.
  Nothing is sent to the executed endpoint.
\<close>

theorem non_Error_rejection:
  assumes "execute_result rt net st w = Some (n, Inl (Thrown v))"
    and "v \<noteq> JUndefined" and "v \<noteq> JNull" and "converts v"
  shows
    "((\<forall>kvs. v \<noteq> JObj kvs) \<longrightarrow>
        new_calls w (snd (worker_item rt net st w))
          = secrets_calls rt n st @ [errored_request rt (state_id st) JUndefined]) \<and>
     (\<forall>kvs. v = JObj kvs \<and> map_of kvs ''message'' = None \<longrightarrow>
        new_calls w (snd (worker_item rt net st w))
          = secrets_calls rt n st @ [errored_request rt (state_id st) JUndefined]) \<and>
     (\<forall>kvs m. v = JObj kvs \<and> map_of kvs ''message'' = Some m \<longrightarrow>
        new_calls w (snd (worker_item rt net st w))
          = secrets_calls rt n st @ [errored_request rt (state_id st) m]) \<and>
     (\<forall>s. url (errored_request rt (state_id st) JUndefined) = getErroredEndpoint rt (state_id st) \<and>
          body (errored_request rt (state_id st) JUndefined) = Some (JObj []) \<and>
          body (errored_request rt (state_id st) (JStr s)) = Some (JObj [(''error'', JStr s)])) \<and>
     length (calls_to (getErroredEndpoint rt (state_id st)) (new_calls w (snd (worker_item rt net st w)))) = 1 \<and>
     calls_to (getExecutedEndpoint rt (state_id st)) (new_calls w (snd (worker_item rt net st w))) = []"
proof -
  from execute_result_raises [OF assms(1)] obtain w1 where
    item: "worker_item rt net st w = worker_catch rt net n st (Thrown v) w1"
    and c1: "calls w1 = calls w @ secrets_calls rt n st"
    by blast
  have catch: "worker_catch rt net n st (Thrown v) w1
                 = worker_errored rt net n st (Thrown v) (message_property v) w1"
    by (simp add: worker_catch_def)
  have reported: "new_calls w (snd (worker_item rt net st w))
                    = secrets_calls rt n st @ [errored_request rt (state_id st) m]"
    if m: "message_property v = Inr m" for m
  proof -
    have "calls (snd (worker_item rt net st w)) =
          calls w @ secrets_calls rt n st @ [errored_request rt (state_id st) m]"
      using item catch c1 m assms(4) worker_errored_calls [of "Thrown v" rt net n st m w1] by simp
    then show ?thesis by (rule new_calls_append)
  qed
  have prim: "(\<forall>kvs. v \<noteq> JObj kvs) \<longrightarrow>
        new_calls w (snd (worker_item rt net st w))
          = secrets_calls rt n st @ [errored_request rt (state_id st) JUndefined]"
  proof
    assume "\<forall>kvs. v \<noteq> JObj kvs"
    with assms(2,3) have "message_property v = Inr JUndefined"
      by (cases v) (simp_all add: message_property_def)
    then show "new_calls w (snd (worker_item rt net st w))
          = secrets_calls rt n st @ [errored_request rt (state_id st) JUndefined]"
      by (rule reported)
  qed
  have bare: "\<forall>kvs. v = JObj kvs \<and> map_of kvs ''message'' = None \<longrightarrow>
        new_calls w (snd (worker_item rt net st w))
          = secrets_calls rt n st @ [errored_request rt (state_id st) JUndefined]"
  proof (intro allI impI)
    fix kvs assume "v = JObj kvs \<and> map_of kvs ''message'' = None"
    then have "message_property v = Inr JUndefined"
      by (simp add: message_property_def get_prop_def)
    then show "new_calls w (snd (worker_item rt net st w))
          = secrets_calls rt n st @ [errored_request rt (state_id st) JUndefined]"
      by (rule reported)
  qed
  have obj: "\<forall>kvs m. v = JObj kvs \<and> map_of kvs ''message'' = Some m \<longrightarrow>
        new_calls w (snd (worker_item rt net st w))
          = secrets_calls rt n st @ [errored_request rt (state_id st) m]"
  proof (intro allI impI)
    fix kvs m assume "v = JObj kvs \<and> map_of kvs ''message'' = Some m"
    then have "message_property v = Inr m"
      by (simp add: message_property_def get_prop_def)
    then show "new_calls w (snd (worker_item rt net st w))
          = secrets_calls rt n st @ [errored_request rt (state_id st) m]"
      by (rule reported)
  qed
  have req: "\<forall>s. url (errored_request rt (state_id st) JUndefined) = getErroredEndpoint rt (state_id st) \<and>
          body (errored_request rt (state_id st) JUndefined) = Some (JObj []) \<and>
          body (errored_request rt (state_id st) (JStr s)) = Some (JObj [(''error'', JStr s)])"
    by (simp add: errored_request_def)
  obtain m where m: "message_property v = Inr m"
    using assms(2,3) by (cases v) (simp_all add: message_property_def)
  have counts:
    "length (calls_to (getErroredEndpoint rt (state_id st)) (new_calls w (snd (worker_item rt net st w)))) = 1 \<and>
     calls_to (getExecutedEndpoint rt (state_id st)) (new_calls w (snd (worker_item rt net st w))) = []"
    using reported [OF m] endpoints_distinct [of rt "state_id st"]
    by (simp add: calls_to_append calls_to_single calls_to_secrets_calls)
  from prim bare obj req counts show ?thesis by (intro conjI) simp_all
qed

lemma execute_result_thrower:
  "execute_result (example_runtime [throwing_node v]) net_ok (example_item ''Thrower'') world0
     = Some (throwing_node v, Inl (Thrown v))"
  by (simp add: execute_result_def example_defs throwing_node_def)

theorem non_Error_rejection_witness:
  "new_calls world0 (snd (worker_item (example_runtime [throwing_node (JStr ''oops'')]) net_ok
                            (example_item ''Thrower'') world0))
     = [errored_request (example_runtime [throwing_node (JStr ''oops'')]) ''s1'' JUndefined] \<and>
   body (errored_request (example_runtime [throwing_node (JStr ''oops'')]) ''s1'' JUndefined) = Some (JObj []) \<and>
   new_calls world0 (snd (worker_item (example_runtime [throwing_node (JObj [(''code'', JNum 7)])]) net_ok
                            (example_item ''Thrower'') world0))
     = [errored_request (example_runtime [throwing_node (JObj [(''code'', JNum 7)])]) ''s1'' JUndefined] \<and>
   new_calls world0 (snd (worker_item (example_runtime [throwing_node (JObj [(''message'', JStr ''m'')])]) net_ok
                            (example_item ''Thrower'') world0))
     = [errored_request (example_runtime [throwing_node (JObj [(''message'', JStr ''m'')])]) ''s1'' (JStr ''m'')]"
proof -
  have i: "state_id (example_item ''Thrower'') = ''s1''"
    by (simp add: example_item_def)
  have s: "secrets_calls (example_runtime [throwing_node v]) (throwing_node v) (example_item ''Thrower'') = []" for v
    by (simp add: secrets_calls_def needSecrets_def throwing_node_def example_node_sel z_object_def)
  have h1: "JStr ''oops'' \<noteq> JUndefined" "JStr ''oops'' \<noteq> JNull" "converts (JStr ''oops'')"
    by simp_all
  have h2: "JObj [(''code'', JNum 7)] \<noteq> JUndefined" "JObj [(''code'', JNum 7)] \<noteq> JNull"
    "converts (JObj [(''code'', JNum 7)])"
    by simp_all
  have h3: "JObj [(''message'', JStr ''m'')] \<noteq> JUndefined" "JObj [(''message'', JStr ''m'')] \<noteq> JNull"
    "converts (JObj [(''message'', JStr ''m'')])"
    by simp_all
  have p1: "\<forall>kvs. JStr ''oops'' \<noteq> JObj kvs" by simp
  have p2: "JObj [(''code'', JNum 7)] = JObj [(''code'', JNum 7)] \<and> map_of [(''code'', JNum 7)] ''message'' = None"
    by simp
  have p3: "JObj [(''message'', JStr ''m'')] = JObj [(''message'', JStr ''m'')] \<and>
            map_of [(''message'', JStr ''m'')] ''message'' = Some (JStr ''m'')"
    by simp
  note A = non_Error_rejection [OF execute_result_thrower h1, unfolded i s, THEN conjunct1, THEN mp, OF p1]
  note A' = non_Error_rejection [OF execute_result_thrower h1, unfolded i s,
              THEN conjunct2, THEN conjunct2, THEN conjunct2, THEN conjunct1, THEN spec, THEN conjunct2,
              THEN conjunct1]
  note B = non_Error_rejection [OF execute_result_thrower h2, unfolded i s,
              THEN conjunct2, THEN conjunct1, THEN spec, THEN mp, OF p2]
  note C = non_Error_rejection [OF execute_result_thrower h3, unfolded i s,
              THEN conjunct2, THEN conjunct2, THEN conjunct1, THEN spec, THEN spec, THEN mp, OF p3]
  from A A' B C show ?thesis by simp
qed

text \<open>
  Claim C10 as stated fails for a handler that rejects with the plain object
  \<^verbatim>\<open>{message: 'm'}\<close>, which is no \<^verbatim>\<open>Error\<close> instance: its \<^verbatim>\<open>message\<close> property is not
  \<^verbatim>\<open>undefined\<close>, and the errored report carries it.
\<close>

theorem thrown_object_counterexample:
  "map body (calls (snd (worker_item (example_runtime [throwing_node (JObj [(''message'', JStr ''m'')])]) net_ok
                           (example_item ''Thrower'') world0)))
     = [Some (JObj [(''error'', JStr ''m'')])]"
  by (simp add: worker_item_def nodeMapping_get_def worker_run_node_def worker_try_def
        worker_catch_def worker_errored_def message_property_def BaseNode_execute_def
        notifyErrored_def errored_request_def interpolates_def
        example_defs throwing_node_def)

text \<open>
  Two rejections that the last branch of the \<^verbatim>\<open>catch\<close> clause does not get to report:
  for \<^verbatim>\<open>null\<close> the read of \<^verbatim>\<open>err.message\<close> throws after the line is logged; for an
  object whose own \<^verbatim>\<open>toString\<close> is no function the text of the log line cannot be built.
  In both the worker terminates and nothing is sent.
\<close>

lemma thrown_null_terminates:
  "fst (worker_item (example_runtime [throwing_node JNull]) net_ok (example_item ''Thrower'') world0)
     = Terminated (Error ''Cannot read properties of null (reading 'message')'') \<and>
   calls (snd (worker_item (example_runtime [throwing_node JNull]) net_ok (example_item ''Thrower'') world0)) = []"
  by (simp add: worker_item_def nodeMapping_get_def worker_run_node_def worker_try_def
        worker_catch_def worker_errored_def message_property_def BaseNode_execute_def
        interpolates_def example_defs throwing_node_def)

lemma thrown_unprintable_terminates:
  "fst (worker_item (example_runtime [throwing_node (JObj [(''toString'', JNum 1), (''message'', JStr ''m'')])])
          net_ok (example_item ''Thrower'') world0)
     = Terminated (Error ''Cannot convert object to primitive value'') \<and>
   calls (snd (worker_item (example_runtime [throwing_node (JObj [(''toString'', JNum 1), (''message'', JStr ''m'')])])
                 net_ok (example_item ''Thrower'') world0)) = []"
  by (simp add: worker_item_def nodeMapping_get_def worker_run_node_def worker_try_def
        worker_catch_def worker_errored_def BaseNode_execute_def
        example_defs throwing_node_def)

subsection \<open>Reports that the orchestrator does not acknowledge\<close>

text \<open>
  A report that is answered with a status that is not 2xx returns normally and hands
  one ERROR line to the logger.
\<close>

lemma report_not_ok_logged:
  assumes "net (length (calls w)) (executed_request rt sid outs) = Resolves res"
    and "net (length (calls w)) (errored_request rt sid m) = Resolves res'"
    and "\<not> ok res" and "\<not> ok res'"
  shows "fst (notifyExecuted rt net sid outs w) = Inr ()"
    and "new_logged w (snd (notifyExecuted rt net sid outs w))
          = [(ERROR, ''Runtime'', [S ''Failed to notify executed state '', S sid, S '': '', S (text_of res)])]"
    and "fst (notifyErrored rt net sid m w) = Inr ()"
    and "new_logged w (snd (notifyErrored rt net sid m w))
          = [(ERROR, ''Runtime'', [S ''Failed to notify errored state '', S sid, S '': '', S (text_of res')])]"
  using assms by (simp_all add: notifyExecuted_def notifyErrored_def fetch_def new_logged_def logger_def)

text \<open>
  A report whose \<^verbatim>\<open>fetch\<close> rejects: neither \<^verbatim>\<open>notifyExecuted\<close> nor \<^verbatim>\<open>notifyErrored\<close> has a
  handler, the rejection is what the call throws and nothing is logged.
\<close>

lemma report_rejected_throws:
  assumes "net (length (calls w)) (executed_request rt sid outs) = Rejects x"
    and "net (length (calls w)) (errored_request rt sid m) = Rejects y"
  shows "notifyExecuted rt net sid outs w = (Inl (Error x), w\<lparr>calls := calls w @ [executed_request rt sid outs]\<rparr>)"
    and "notifyErrored rt net sid m w = (Inl (Error y), w\<lparr>calls := calls w @ [errored_request rt sid m]\<rparr>)"
  using assms by (simp_all add: notifyExecuted_def notifyErrored_def fetch_def)

text \<open>
  The errored report of the \<^verbatim>\<open>catch\<close> clause is awaited inside the clause: when its
  \<^verbatim>\<open>fetch\<close> rejects, the rejection leaves the loop of the worker.
\<close>

lemma worker_errored_rejected:
  assumes "interpolates err"
    and "net (length (calls w)) (errored_request rt (state_id st) m) = Rejects y"
  shows "fst (worker_errored rt net n st err (Inr m) w) = Terminated (Error y)"
  using assms by (simp add: worker_errored_def notifyErrored_def fetch_def)

lemma worker_item_unknown_rejected:
  assumes "nodeMapping_get rt (node_name st) = Undefined"
    and "net (length (calls w)) (errored_request rt (state_id st) (JStr ''Unknown node'')) = Rejects y"
  shows "fst (worker_item rt net st w) = Terminated (Error y)"
  using assms by (simp add: worker_item_def notifyErrored_def fetch_def)

lemma worker_loop_terminated:
  assumes "fst (worker_item rt net st w) = Terminated e"
  shows "worker_loop rt net (st # rest) w = (Terminated e, snd (worker_item rt net st w))"
  using assms by (cases "worker_item rt net st w") simp

text \<open>
  Claim C4, at an input where the code does not do what the claim says. The orchestrator
  cannot be reached and every \<^verbatim>\<open>fetch\<close> rejects with \<^verbatim>\<open>fetch failed\<close>. The worker dequeues
  an item of the unregistered node \<^verbatim>\<open>Missing\<close>: the rejection of its errored report
  terminates the worker, nothing about the report is logged, and the item that follows
  is never processed. The worker dequeues an item whose handler returned outputs: the
  rejection of the executed report is caught and logged by the \<^verbatim>\<open>catch\<close> clause, and the
  rejection of the errored report that the clause sends terminates the worker.
\<close>

theorem report_rejected_terminates_worker:
  "worker_item (example_runtime [failing_node]) net_down (example_item ''Missing'') world0
     = (Terminated (Error ''fetch failed''),
        \<lparr>calls = [errored_request (example_runtime [failing_node]) ''s1'' (JStr ''Unknown node'')],
         logged = [(ERROR, ''Runtime'', [S ''Unknown node: '', S ''Missing''])],
         sleeps = []\<rparr>) \<and>
   worker_loop (example_runtime [failing_node]) net_down
          [example_item ''Missing'', example_item ''Fail''] world0
     = (Terminated (Error ''fetch failed''),
        \<lparr>calls = [errored_request (example_runtime [failing_node]) ''s1'' (JStr ''Unknown node'')],
         logged = [(ERROR, ''Runtime'', [S ''Unknown node: '', S ''Missing''])],
         sleeps = []\<rparr>) \<and>
   worker_item (example_runtime [returning_node (JObj [(''y'', JStr ''v'')])]) net_down
          (example_item ''Returner'') world0
     = (Terminated (Error ''fetch failed''),
        \<lparr>calls = [executed_request (example_runtime [returning_node (JObj [(''y'', JStr ''v'')])]) ''s1''
                     [JObj [(''y'', JStr ''v'')]],
                  errored_request (example_runtime [returning_node (JObj [(''y'', JStr ''v'')])]) ''s1''
                     (JStr ''fetch failed'')],
         logged = [(INFO, ''Runtime'', [S ''Executing state '', S ''s1'', S '' for node '', S ''Returner'']),
                   (INFO, ''Runtime'', [S ''Got outputs for state '', S ''s1'', S '' for node '', S ''Returner'']),
                   (ERROR, ''Runtime'', [S ''Error executing state '', S ''s1'', S '' for node '', S ''Returner'',
                                        S '': '', V (Error ''fetch failed'')])],
         sleeps = []\<rparr>)"
proof -
  have a: "worker_item (example_runtime [failing_node]) net_down (example_item ''Missing'') world0
     = (Terminated (Error ''fetch failed''),
        \<lparr>calls = [errored_request (example_runtime [failing_node]) ''s1'' (JStr ''Unknown node'')],
         logged = [(ERROR, ''Runtime'', [S ''Unknown node: '', S ''Missing''])],
         sleeps = []\<rparr>)"
    by (simp add: worker_item_def nodeMapping_get_def Object_prototype_keys_def notifyErrored_def
          example_defs failing_node_def)
  have b: "worker_loop (example_runtime [failing_node]) net_down
          [example_item ''Missing'', example_item ''Fail''] world0
     = (Terminated (Error ''fetch failed''),
        \<lparr>calls = [errored_request (example_runtime [failing_node]) ''s1'' (JStr ''Unknown node'')],
         logged = [(ERROR, ''Runtime'', [S ''Unknown node: '', S ''Missing''])],
         sleeps = []\<rparr>)"
    using a by simp
  have c: "worker_item (example_runtime [returning_node (JObj [(''y'', JStr ''v'')])]) net_down
          (example_item ''Returner'') world0
     = (Terminated (Error ''fetch failed''),
        \<lparr>calls = [executed_request (example_runtime [returning_node (JObj [(''y'', JStr ''v'')])]) ''s1''
                     [JObj [(''y'', JStr ''v'')]],
                  errored_request (example_runtime [returning_node (JObj [(''y'', JStr ''v'')])]) ''s1''
                     (JStr ''fetch failed'')],
         logged = [(INFO, ''Runtime'', [S ''Executing state '', S ''s1'', S '' for node '', S ''Returner'']),
                   (INFO, ''Runtime'', [S ''Got outputs for state '', S ''s1'', S '' for node '', S ''Returner'']),
                   (ERROR, ''Runtime'', [S ''Error executing state '', S ''s1'', S '' for node '', S ''Returner'',
                                        S '': '', V (Error ''fetch failed'')])],
         sleeps = []\<rparr>)"
    by (simp add: worker_item_def nodeMapping_get_def worker_run_node_def worker_try_def
          worker_secrets_def needSecrets_def
          worker_catch_def worker_errored_def BaseNode_execute_def BaseNode_outputs_def
          notifyExecuted_def notifyErrored_def outArray_def zod_parse_def z_object_def z_string_def
          example_defs returning_node_def)
  from a b c show ?thesis by (intro conjI)
qed

section \<open>Properties of the construction of the Runtime\<close>

subsection \<open>Duplicated names\<close>

lemma indexOf_ge: "- 1 \<le> indexOf xs x"
  by (induction xs) (auto simp: Let_def)

lemma indexOf_absent: "x \<notin> set xs \<Longrightarrow> indexOf xs x = - 1"
  by (induction xs) (auto simp: Let_def)




text \<open>The messages of one schema of a node.\<close>

lemma checkStrings_declared:
  "has_schema z \<Longrightarrow>
   checkStrings nm z label =
     Inr (map (\<lambda>kz. must_be_string nm label (fst kz)) (filter (\<lambda>kz. \<not> isZodStringSchema (snd kz)) (fields_of z)))"
  by (auto simp: has_schema_def checkStrings_def fields_of_def split: zod.splits option.splits)






lemma validateNodes_loop_declared:
  "list_all declares_schemas ns \<Longrightarrow> \<exists>es. validateNodes_loop ns acc = Inr es"
proof (induction ns arbitrary: acc)
  case Nil
  then show ?case by simp
next
  case (Cons n ns)
  then have d: "has_schema (Inputs n)" "has_schema (Outputs n)" "has_schema (Secrets n)"
    by (simp_all add: declares_schemas_def)
  from Cons.prems have rest: "list_all declares_schemas ns" by simp
  have "\<exists>es1. validateNode n acc = Inr es1"
    by (simp add: validateNode_def checkStrings_declared [OF d(1)] checkStrings_declared [OF d(2)]
          checkStrings_declared [OF d(3)])
  then obtain es1 where "validateNode n acc = Inr es1" by blast
  with Cons.IH [OF rest, of es1] show ?case by simp
qed










subsection \<open>The aggregated error\<close>





text \<open>
  A class without the schema members (the function \<^verbatim>\<open>Object\<close>, say) makes \<^verbatim>\<open>validateNodes\<close>
  throw a TypeError in place of the collected lines.
\<close>

lemma missing_schema_TypeError:
  "new_Runtime ''ns'' ''rt'' [Object_ctor] example_options no_env
     = Inl (Error ''Cannot read properties of undefined (reading 'shape')'')"
  by (simp add: new_Runtime_def validateRuntime_def validateNodes_def validation_errors_def
        validateNode_def checkStrings_def runtime_fields_def example_options_def no_env_def
        nullish_def Object_ctor_def)

section \<open>Properties of the poller\<close>

lemma sleeps_logger [simp]: "sleeps (logger lv nm parts w) = sleeps w"
  by (simp add: logger_def)

lemma sleep_fields [simp]:
  "sleeps (sleep ms w) = sleeps w @ [setTimeout_delay ms]"
  "calls (sleep ms w) = calls w"
  "logged (sleep ms w) = logged w"
  by (simp_all add: sleep_def)

lemma JSON_stringify_strings:
  "map (\<lambda>v. case v of JUndefined \<Rightarrow> JNull | _ \<Rightarrow> v) (map JSON_stringify (map JStr xs)) = map JStr xs"
  by (induction xs) simp_all

lemma enqueue_request_body:
  "body (enqueue_request rt)
     = Some (JObj [(''nodes'', JArr (map JStr (nodeNames rt))), (''batch_size'', JNum (batchSize rt))])"
  by (simp add: enqueue_request_def JSON_stringify_strings)

lemma enqueueCall_calls: "calls (snd (enqueueCall rt net w)) = calls w @ [enqueue_request rt]"
  using fetch_calls [of net "enqueue_request rt" w]
  by (auto simp: enqueueCall_def split: prod.splits sum.splits)

lemma enqueueCall_sleeps: "sleeps (snd (enqueueCall rt net w)) = sleeps w"
  by (auto simp: enqueueCall_def fetch_def split: prod.splits sum.splits fetch_result.splits)

lemma enqueue_try_sleeps: "sleeps (snd (enqueue_try rt net q w)) = sleeps w"
  using enqueueCall_sleeps [of rt net w]
  by (auto simp: enqueue_try_def split: prod.splits sum.splits)

text \<open>Whatever the \<^verbatim>\<open>try\<close> block of the poller throws is an \<^verbatim>\<open>Error\<close> instance.\<close>

lemma enqueueCall_throws:
  "enqueueCall rt net w = (Inl e, w') \<Longrightarrow> \<exists>m. e = Error m"
  by (auto simp: enqueueCall_def fetch_def split: fetch_result.splits if_splits sum.splits)

lemma states_of_throws:
  "states_of d = Inl e \<Longrightarrow> \<exists>m. e = Error m"
  by (auto simp: states_of_def split: js_value.splits)

lemma enqueue_try_throws:
  "enqueue_try rt net q w = (Inl e, w') \<Longrightarrow> \<exists>m. e = Error m"
  by (auto simp: enqueue_try_def split: if_splits prod.splits sum.splits
        dest: enqueueCall_throws states_of_throws)

lemma enqueue_iteration_Running: "fst (enqueue_iteration rt net q w) = Running"
proof (cases "enqueue_try rt net q w")
  case (Pair r w')
  show ?thesis
  proof (cases r)
    case (Inl e)
    with Pair enqueue_try_throws [of rt net q w e w'] have "interpolates e"
      by (auto simp: interpolates_def)
    with Pair Inl show ?thesis by (simp add: enqueue_iteration_def)
  next
    case (Inr xs)
    with Pair show ?thesis by (simp add: enqueue_iteration_def)
  qed
qed

lemma enqueue_iteration_sleeps:
  "length (sleeps (snd (snd (enqueue_iteration rt net q w)))) = Suc (length (sleeps w))"
proof (cases "enqueue_try rt net q w")
  case (Pair r w')
  with enqueue_try_sleeps [of rt net q w] have s: "sleeps w' = sleeps w" by simp
  show ?thesis
  proof (cases r)
    case (Inl e)
    with Pair enqueue_try_throws [of rt net q w e w'] have "interpolates e"
      by (auto simp: interpolates_def)
    with Pair Inl s show ?thesis by (simp add: enqueue_iteration_def)
  next
    case (Inr xs)
    with Pair s show ?thesis by (simp add: enqueue_iteration_def)
  qed
qed

lemma enqueue_loop_Suc:
  "enqueue_loop rt net (Suc k) (s, w)
     = enqueue_loop rt net k
         (foldl run_op s (map Put (fst (snd (enqueue_iteration rt net (fst s) w)))),
          snd (snd (enqueue_iteration rt net (fst s) w)))"
  using enqueue_iteration_Running [of rt net "fst s" w]
  by (cases "enqueue_iteration rt net (fst s) w") auto

lemma enqueue_loop_runs:
  "fst (enqueue_loop rt net k (s, w)) = Running \<and>
   length (sleeps (snd (snd (enqueue_loop rt net k (s, w))))) = length (sleeps w) + k"
proof (induction k arbitrary: s w)
  case 0
  show ?case by simp
next
  case (Suc k)
  show ?case
    using Suc [of "foldl run_op s (map Put (fst (snd (enqueue_iteration rt net (fst s) w))))"
                  "snd (snd (enqueue_iteration rt net (fst s) w))"]
          enqueue_iteration_sleeps [of rt net "fst s" w]
    by (simp only: enqueue_loop_Suc) simp
qed

lemma put_all_buffered:
  "resolvers (fst s) = [] \<Longrightarrow>
   foldl run_op s (map Put xs) = ((fst s)\<lparr>items := items (fst s) @ xs\<rparr>, snd s)"
proof (induction xs arbitrary: s)
  case Nil
  then show ?case by simp
next
  case (Cons x xs)
  obtain q rcv where s: "s = (q, rcv)" by (cases s)
  with Cons.prems have r: "resolvers q = []" by simp
  then have step: "run_op s (Put x) = (q\<lparr>items := items q @ [x]\<rparr>, rcv)"
    using s by (simp add: put_def)
  from Cons.IH [of "(q\<lparr>items := items q @ [x]\<rparr>, rcv)"] r step s show ?case by simp
qed

text \<open>
  Claim C8, as the code has it. In every iteration of the loop of \<^verbatim>\<open>enqueue\<close>: with a
  queue whose size is not below the batch size no request is made, nothing is logged or
  put, and the poller sleeps on a timer of the poll interval. With a smaller queue
  exactly one request is made, a POST to the enqueue endpoint that asks for \<^verbatim>\<open>batch_size\<close>
  states of the registered nodes. When the answer is ok and its document yields the
  states \<open>xs\<close> (the array \<^verbatim>\<open>states\<close> of the document, or none when the document has no
  \<^verbatim>\<open>states\<close> or \<^verbatim>\<open>null\<close>), these are handed to \<^verbatim>\<open>put\<close> one by one, in order, their number is
  logged and the poller sleeps on a timer of the poll interval. When the \<^verbatim>\<open>fetch\<close> rejects,
  when the answer is not ok, when its body is no JSON text, when its document is \<^verbatim>\<open>null\<close>,
  and when the \<^verbatim>\<open>states\<close> of the document is a boolean, a number or an object that cannot
  be iterated over, the error is handed to the logger, nothing is put and the poller
  sleeps on a timer of twice the poll interval. The iteration never ends the loop: after
  \<open>k\<close> iterations the poller is running and has slept \<open>k\<close> times. A timer set to a delay
  from 1 to 2147483647 milliseconds has that delay; set to any other delay it has the
  delay of 1 millisecond.
\<close>

theorem poller_iteration:
  "(batchSize rt \<le> int (size_queue q) \<longrightarrow>
      fst (enqueue_iteration rt net q w) = Running \<and>
      fst (snd (enqueue_iteration rt net q w)) = [] \<and>
      calls (snd (snd (enqueue_iteration rt net q w))) = calls w \<and>
      logged (snd (snd (enqueue_iteration rt net q w))) = logged w \<and>
      sleeps (snd (snd (enqueue_iteration rt net q w))) = sleeps w @ [setTimeout_delay (pollInterval rt)]) \<and>
   (int (size_queue q) < batchSize rt \<longrightarrow>
      calls (snd (snd (enqueue_iteration rt net q w))) = calls w @ [enqueue_request rt] \<and>
      url (enqueue_request rt) = getEnqueueEndpoint rt \<and>
      http_method (enqueue_request rt) = POST \<and>
      body (enqueue_request rt)
        = Some (JObj [(''nodes'', JArr (map JStr (nodeNames rt))), (''batch_size'', JNum (batchSize rt))]) \<and>
      (\<forall>res kvs xs.
         net (length (calls w)) (enqueue_request rt) = Resolves res \<and> ok res \<and>
         json_of res = Inr (JObj kvs) \<and>
         (map_of kvs ''states'' = Some (JArr xs) \<or>
          map_of kvs ''states'' \<in> {None, Some JNull, Some JUndefined} \<and> xs = []) \<longrightarrow>
         fst (enqueue_iteration rt net q w) = Running \<and>
         fst (snd (enqueue_iteration rt net q w)) = xs \<and>
         logged (snd (snd (enqueue_iteration rt net q w)))
           = logged w @ [(INFO, ''Runtime'', [S ''Enqueued states: '', N (int (length xs))])] \<and>
         sleeps (snd (snd (enqueue_iteration rt net q w))) = sleeps w @ [setTimeout_delay (pollInterval rt)]) \<and>
      (\<forall>m.
         (net (length (calls w)) (enqueue_request rt) = Rejects m \<or>
          (\<exists>res. net (length (calls w)) (enqueue_request rt) = Resolves res \<and> \<not> ok res \<and>
                 m = ''Failed to enqueue states: '' @ text_of res) \<or>
          (\<exists>res. net (length (calls w)) (enqueue_request rt) = Resolves res \<and> ok res \<and>
                 json_of res = Inl m) \<or>
          (\<exists>res. net (length (calls w)) (enqueue_request rt) = Resolves res \<and> ok res \<and>
                 json_of res = Inr JNull \<and>
                 m = ''Cannot read properties of null (reading 'states')'') \<or>
          (\<exists>res kvs v. net (length (calls w)) (enqueue_request rt) = Resolves res \<and> ok res \<and>
                 json_of res = Inr (JObj kvs) \<and> map_of kvs ''states'' = Some v \<and>
                 ((\<exists>b. v = JBool b) \<or> (\<exists>n. v = JNum n) \<or> (\<exists>ps. v = JObj ps)) \<and>
                 m = ''states is not iterable'')) \<longrightarrow>
         fst (enqueue_iteration rt net q w) = Running \<and>
         fst (snd (enqueue_iteration rt net q w)) = [] \<and>
         logged (snd (snd (enqueue_iteration rt net q w)))
           = logged w @ [(ERROR, ''Runtime'', [S ''Error enqueuing states: '', V (Error m)])] \<and>
         sleeps (snd (snd (enqueue_iteration rt net q w)))
           = sleeps w @ [setTimeout_delay (pollInterval rt * 2)])) \<and>
   fst (enqueue_iteration rt net q w) = Running \<and>
   enqueue_loop rt net (Suc k) (s, w)
     = enqueue_loop rt net k
         (foldl run_op s (map Put (fst (snd (enqueue_iteration rt net (fst s) w)))),
          snd (snd (enqueue_iteration rt net (fst s) w))) \<and>
   fst (enqueue_loop rt net k (s, w)) = Running \<and>
   length (sleeps (snd (snd (enqueue_loop rt net k (s, w))))) = length (sleeps w) + k \<and>
   (resolvers (fst s) = [] \<longrightarrow>
      foldl run_op s (map Put xs) = ((fst s)\<lparr>items := items (fst s) @ xs\<rparr>, snd s)) \<and>
   (\<forall>ms. (1 \<le> ms \<and> ms \<le> 2147483647 \<longrightarrow> setTimeout_delay ms = ms) \<and>
         (ms < 1 \<or> 2147483647 < ms \<longrightarrow> setTimeout_delay ms = 1))"
  (is "?full \<and> (?lt \<longrightarrow> ?calls \<and> ?url \<and> ?verb \<and> ?body \<and> ?success \<and> ?failure) \<and>
       ?running \<and> ?step \<and> ?loop \<and> ?slept \<and> ?buffered \<and> ?timer")
proof -
  have full: ?full
    by (simp add: enqueue_iteration_def enqueue_try_def)
  have calls: "?lt \<longrightarrow> ?calls"
  proof
    assume lt: ?lt
    show ?calls
      using lt enqueueCall_calls [of rt net w]
      by (auto simp: enqueue_iteration_def enqueue_try_def split: prod.splits sum.splits)
  qed
  have u: ?url
    by (simp add: enqueue_request_def)
  have m: ?verb
    by (simp add: enqueue_request_def)
  have b: ?body
    by (rule enqueue_request_body)
  have success: "?lt \<longrightarrow> ?success"
    by (auto simp: enqueue_iteration_def enqueue_try_def enqueueCall_def fetch_def
          states_of_def get_prop_def logger_def)
  have failure: "?lt \<longrightarrow> ?failure"
    by (auto simp: enqueue_iteration_def enqueue_try_def enqueueCall_def fetch_def
          states_of_def get_prop_def logger_def interpolates_def)
  have inner: "?lt \<longrightarrow> ?calls \<and> ?url \<and> ?verb \<and> ?body \<and> ?success \<and> ?failure"
    using calls u m b success failure by blast
  have running: ?running
    by (rule enqueue_iteration_Running)
  have step: ?step
    by (rule enqueue_loop_Suc)
  have loop: ?loop
    using enqueue_loop_runs [of rt net k s w] by simp
  have slept: ?slept
    using enqueue_loop_runs [of rt net k s w] by simp
  have buffered: ?buffered
    using put_all_buffered by blast
  have timer: ?timer
    by (simp add: setTimeout_delay_def)
  from buffered timer have r1: "?buffered \<and> ?timer" by (rule conjI)
  from slept r1 have r2: "?slept \<and> ?buffered \<and> ?timer" by (rule conjI)
  from loop r2 have r3: "?loop \<and> ?slept \<and> ?buffered \<and> ?timer" by (rule conjI)
  from step r3 have r4: "?step \<and> ?loop \<and> ?slept \<and> ?buffered \<and> ?timer" by (rule conjI)
  from running r4 have r5: "?running \<and> ?step \<and> ?loop \<and> ?slept \<and> ?buffered \<and> ?timer" by (rule conjI)
  from inner r5 have r6: "(?lt \<longrightarrow> ?calls \<and> ?url \<and> ?verb \<and> ?body \<and> ?success \<and> ?failure) \<and>
       ?running \<and> ?step \<and> ?loop \<and> ?slept \<and> ?buffered \<and> ?timer" by (rule conjI)
  from full r6 show ?thesis by (rule conjI)
qed

theorem poller_iteration_witness:
  "fst (snd (enqueue_iteration (example_runtime []) net_states
               \<lparr>items = two_states, resolvers = [], capacity = 4\<rparr> world0)) = [] \<and>
   calls (snd (snd (enqueue_iteration (example_runtime []) net_states
               \<lparr>items = two_states, resolvers = [], capacity = 4\<rparr> world0))) = [] \<and>
   sleeps (snd (snd (enqueue_iteration (example_runtime []) net_states
               \<lparr>items = two_states, resolvers = [], capacity = 4\<rparr> world0))) = [10] \<and>
   calls (snd (snd (enqueue_iteration (example_runtime []) net_states (new_AsyncQueue 4) world0)))
     = [enqueue_request (example_runtime [])] \<and>
   body (enqueue_request (example_runtime [example_node ''Echo'' [] echo]))
     = Some (JObj [(''nodes'', JArr [JStr ''Echo'']), (''batch_size'', JNum 2)]) \<and>
   fst (snd (enqueue_iteration (example_runtime []) net_states (new_AsyncQueue 4) world0)) = two_states \<and>
   logged (snd (snd (enqueue_iteration (example_runtime []) net_states (new_AsyncQueue 4) world0)))
     = [(INFO, ''Runtime'', [S ''Enqueued states: '', N 2])] \<and>
   sleeps (snd (snd (enqueue_iteration (example_runtime []) net_states (new_AsyncQueue 4) world0))) = [10] \<and>
   fst (snd (enqueue_iteration (example_runtime []) net_down (new_AsyncQueue 4) world0)) = [] \<and>
   logged (snd (snd (enqueue_iteration (example_runtime []) net_down (new_AsyncQueue 4) world0)))
     = [(ERROR, ''Runtime'', [S ''Error enqueuing states: '', V (Error ''fetch failed'')])] \<and>
   sleeps (snd (snd (enqueue_iteration (example_runtime []) net_down (new_AsyncQueue 4) world0))) = [20] \<and>
   logged (snd (snd (enqueue_iteration (example_runtime []) net_500 (new_AsyncQueue 4) world0)))
     = [(ERROR, ''Runtime'',
         [S ''Error enqueuing states: '', V (Error ''Failed to enqueue states: Internal Server Error'')])] \<and>
   sleeps (snd (snd (enqueue_iteration (example_runtime []) net_500 (new_AsyncQueue 4) world0))) = [20] \<and>
   fst (snd (enqueue_iteration (example_runtime []) net_html (new_AsyncQueue 4) world0)) = [] \<and>
   logged (snd (snd (enqueue_iteration (example_runtime []) net_html (new_AsyncQueue 4) world0)))
     = [(ERROR, ''Runtime'',
         [S ''Error enqueuing states: '', V (Error ''Unexpected token < in JSON at position 0'')])] \<and>
   sleeps (snd (snd (enqueue_iteration (example_runtime []) net_html (new_AsyncQueue 4) world0))) = [20] \<and>
   logged (snd (snd (enqueue_iteration (example_runtime []) net_null (new_AsyncQueue 4) world0)))
     = [(ERROR, ''Runtime'',
         [S ''Error enqueuing states: '', V (Error ''Cannot read properties of null (reading 'states')'')])] \<and>
   sleeps (snd (snd (enqueue_iteration (example_runtime []) net_null (new_AsyncQueue 4) world0))) = [20] \<and>
   fst (snd (enqueue_iteration (example_runtime []) net_bad_states (new_AsyncQueue 4) world0)) = [] \<and>
   logged (snd (snd (enqueue_iteration (example_runtime []) net_bad_states (new_AsyncQueue 4) world0)))
     = [(ERROR, ''Runtime'', [S ''Error enqueuing states: '', V (Error ''states is not iterable'')])] \<and>
   sleeps (snd (snd (enqueue_iteration (example_runtime []) net_bad_states (new_AsyncQueue 4) world0))) = [20] \<and>
   fst (enqueue_loop (example_runtime []) net_down 3 ((new_AsyncQueue 4, []), world0)) = Running \<and>
   length (sleeps (snd (snd (enqueue_loop (example_runtime []) net_down 3 ((new_AsyncQueue 4, []), world0))))) = 3 \<and>
   foldl run_op (new_AsyncQueue 4, []) (map Put two_states)
     = (\<lparr>items = two_states, resolvers = [], capacity = 4\<rparr>, []) \<and>
   setTimeout_delay 20 = 20"
proof -
  let ?rt = "example_runtime []"
  let ?full = "\<lparr>items = two_states, resolvers = [], capacity = 4\<rparr> :: js_value AsyncQueue"
  let ?empty = "new_AsyncQueue 4 :: js_value AsyncQueue"
  let ?req = "enqueue_request ?rt"
  have sz_full: "batchSize ?rt \<le> int (size_queue ?full)"
    by (simp add: example_runtime_def size_queue_def two_states_def)
  have sz_empty: "int (size_queue ?empty) < batchSize ?rt"
    by (simp add: example_runtime_def size_queue_def new_AsyncQueue_def)
  have c0: "calls world0 = []" "sleeps world0 = []" "logged world0 = []"
    by (simp_all add: world0_def)
  have pi: "pollInterval ?rt = 10"
    by (simp add: example_runtime_def)
  have d: "setTimeout_delay 10 = 10" "setTimeout_delay (10 * 2) = 20"
    by (simp_all add: setTimeout_delay_def)
  have n2: "int (length two_states) = 2"
    by (simp add: two_states_def)
  have res0: "resolvers (fst (?empty, [] :: (nat \<times> js_value) list)) = []"
    by (simp add: new_AsyncQueue_def)
  have ok_states:
    "net_states (length (calls world0)) ?req
       = Resolves \<lparr>status = 200, text_of = ''ok'', json_of = Inr (JObj [(''states'', JArr two_states)])\<rparr> \<and>
     ok \<lparr>status = 200, text_of = ''ok'', json_of = Inr (JObj [(''states'', JArr two_states)])\<rparr> \<and>
     json_of \<lparr>status = 200, text_of = ''ok'', json_of = Inr (JObj [(''states'', JArr two_states)])\<rparr>
       = Inr (JObj [(''states'', JArr two_states)]) \<and>
     (map_of [(''states'', JArr two_states)] ''states'' = Some (JArr two_states) \<or>
      map_of [(''states'', JArr two_states)] ''states'' \<in> {None, Some JNull, Some JUndefined} \<and> two_states = [])"
    by (simp add: net_states_def ok_def)
  have down:
    "net_down (length (calls world0)) ?req = Rejects ''fetch failed'' \<or>
     (\<exists>res. net_down (length (calls world0)) ?req = Resolves res \<and> \<not> ok res \<and>
            ''fetch failed'' = ''Failed to enqueue states: '' @ text_of res) \<or>
     (\<exists>res. net_down (length (calls world0)) ?req = Resolves res \<and> ok res \<and>
            json_of res = Inl ''fetch failed'') \<or>
     (\<exists>res. net_down (length (calls world0)) ?req = Resolves res \<and> ok res \<and>
            json_of res = Inr JNull \<and>
            ''fetch failed'' = ''Cannot read properties of null (reading 'states')'') \<or>
     (\<exists>res kvs v. net_down (length (calls world0)) ?req = Resolves res \<and> ok res \<and>
            json_of res = Inr (JObj kvs) \<and> map_of kvs ''states'' = Some v \<and>
            ((\<exists>b. v = JBool b) \<or> (\<exists>n. v = JNum n) \<or> (\<exists>ps. v = JObj ps)) \<and>
            ''fetch failed'' = ''states is not iterable'')"
    by (simp add: net_down_def)
  have refused:
    "net_500 (length (calls world0)) ?req = Rejects ''Failed to enqueue states: Internal Server Error'' \<or>
     (\<exists>res. net_500 (length (calls world0)) ?req = Resolves res \<and> \<not> ok res \<and>
            ''Failed to enqueue states: Internal Server Error'' = ''Failed to enqueue states: '' @ text_of res) \<or>
     (\<exists>res. net_500 (length (calls world0)) ?req = Resolves res \<and> ok res \<and>
            json_of res = Inl ''Failed to enqueue states: Internal Server Error'') \<or>
     (\<exists>res. net_500 (length (calls world0)) ?req = Resolves res \<and> ok res \<and>
            json_of res = Inr JNull \<and>
            ''Failed to enqueue states: Internal Server Error''
              = ''Cannot read properties of null (reading 'states')'') \<or>
     (\<exists>res kvs v. net_500 (length (calls world0)) ?req = Resolves res \<and> ok res \<and>
            json_of res = Inr (JObj kvs) \<and> map_of kvs ''states'' = Some v \<and>
            ((\<exists>b. v = JBool b) \<or> (\<exists>n. v = JNum n) \<or> (\<exists>ps. v = JObj ps)) \<and>
            ''Failed to enqueue states: Internal Server Error'' = ''states is not iterable'')"
    by (simp add: net_500_def ok_def)
  have html:
    "net_html (length (calls world0)) ?req = Rejects ''Unexpected token < in JSON at position 0'' \<or>
     (\<exists>res. net_html (length (calls world0)) ?req = Resolves res \<and> \<not> ok res \<and>
            ''Unexpected token < in JSON at position 0'' = ''Failed to enqueue states: '' @ text_of res) \<or>
     (\<exists>res. net_html (length (calls world0)) ?req = Resolves res \<and> ok res \<and>
            json_of res = Inl ''Unexpected token < in JSON at position 0'') \<or>
     (\<exists>res. net_html (length (calls world0)) ?req = Resolves res \<and> ok res \<and>
            json_of res = Inr JNull \<and>
            ''Unexpected token < in JSON at position 0''
              = ''Cannot read properties of null (reading 'states')'') \<or>
     (\<exists>res kvs v. net_html (length (calls world0)) ?req = Resolves res \<and> ok res \<and>
            json_of res = Inr (JObj kvs) \<and> map_of kvs ''states'' = Some v \<and>
            ((\<exists>b. v = JBool b) \<or> (\<exists>n. v = JNum n) \<or> (\<exists>ps. v = JObj ps)) \<and>
            ''Unexpected token < in JSON at position 0'' = ''states is not iterable'')"
    by (simp add: net_html_def ok_def)
  have null:
    "net_null (length (calls world0)) ?req = Rejects ''Cannot read properties of null (reading 'states')'' \<or>
     (\<exists>res. net_null (length (calls world0)) ?req = Resolves res \<and> \<not> ok res \<and>
            ''Cannot read properties of null (reading 'states')'' = ''Failed to enqueue states: '' @ text_of res) \<or>
     (\<exists>res. net_null (length (calls world0)) ?req = Resolves res \<and> ok res \<and>
            json_of res = Inl ''Cannot read properties of null (reading 'states')'') \<or>
     (\<exists>res. net_null (length (calls world0)) ?req = Resolves res \<and> ok res \<and>
            json_of res = Inr JNull \<and>
            ''Cannot read properties of null (reading 'states')''
              = ''Cannot read properties of null (reading 'states')'') \<or>
     (\<exists>res kvs v. net_null (length (calls world0)) ?req = Resolves res \<and> ok res \<and>
            json_of res = Inr (JObj kvs) \<and> map_of kvs ''states'' = Some v \<and>
            ((\<exists>b. v = JBool b) \<or> (\<exists>n. v = JNum n) \<or> (\<exists>ps. v = JObj ps)) \<and>
            ''Cannot read properties of null (reading 'states')'' = ''states is not iterable'')"
    by (simp add: net_null_def ok_def)
  have bad:
    "net_bad_states (length (calls world0)) ?req = Rejects ''states is not iterable'' \<or>
     (\<exists>res. net_bad_states (length (calls world0)) ?req = Resolves res \<and> \<not> ok res \<and>
            ''states is not iterable'' = ''Failed to enqueue states: '' @ text_of res) \<or>
     (\<exists>res. net_bad_states (length (calls world0)) ?req = Resolves res \<and> ok res \<and>
            json_of res = Inl ''states is not iterable'') \<or>
     (\<exists>res. net_bad_states (length (calls world0)) ?req = Resolves res \<and> ok res \<and>
            json_of res = Inr JNull \<and>
            ''states is not iterable'' = ''Cannot read properties of null (reading 'states')'') \<or>
     (\<exists>res kvs v. net_bad_states (length (calls world0)) ?req = Resolves res \<and> ok res \<and>
            json_of res = Inr (JObj kvs) \<and> map_of kvs ''states'' = Some v \<and>
            ((\<exists>b. v = JBool b) \<or> (\<exists>n. v = JNum n) \<or> (\<exists>ps. v = JObj ps)) \<and>
            ''states is not iterable'' = ''states is not iterable'')"
    by (simp add: net_bad_states_def ok_def)
  note F = poller_iteration [where rt = ?rt and net = net_states and q = ?full and w = world0,
             THEN conjunct1, THEN mp, OF sz_full]
  note S = poller_iteration [where rt = ?rt and net = net_states and q = ?empty and w = world0,
             THEN conjunct2, THEN conjunct1, THEN mp, OF sz_empty]
  note S1 = S [THEN conjunct1]
  note S5 = S [THEN conjunct2, THEN conjunct2, THEN conjunct2, THEN conjunct2, THEN conjunct1,
               THEN spec, THEN spec, THEN spec, THEN mp, OF ok_states]
  note B = poller_iteration [where rt = "example_runtime [example_node ''Echo'' [] echo]"
             and net = net_states and q = ?empty and w = world0,
             THEN conjunct2, THEN conjunct1, THEN mp,
             THEN conjunct2, THEN conjunct2, THEN conjunct2, THEN conjunct1]
  note D = poller_iteration [where rt = ?rt and net = net_down and q = ?empty and w = world0,
             THEN conjunct2, THEN conjunct1, THEN mp, OF sz_empty,
             THEN conjunct2, THEN conjunct2, THEN conjunct2, THEN conjunct2, THEN conjunct2,
             THEN spec, THEN mp, OF down]
  note R = poller_iteration [where rt = ?rt and net = net_500 and q = ?empty and w = world0,
             THEN conjunct2, THEN conjunct1, THEN mp, OF sz_empty,
             THEN conjunct2, THEN conjunct2, THEN conjunct2, THEN conjunct2, THEN conjunct2,
             THEN spec, THEN mp, OF refused]
  note H = poller_iteration [where rt = ?rt and net = net_html and q = ?empty and w = world0,
             THEN conjunct2, THEN conjunct1, THEN mp, OF sz_empty,
             THEN conjunct2, THEN conjunct2, THEN conjunct2, THEN conjunct2, THEN conjunct2,
             THEN spec, THEN mp, OF html]
  note N = poller_iteration [where rt = ?rt and net = net_null and q = ?empty and w = world0,
             THEN conjunct2, THEN conjunct1, THEN mp, OF sz_empty,
             THEN conjunct2, THEN conjunct2, THEN conjunct2, THEN conjunct2, THEN conjunct2,
             THEN spec, THEN mp, OF null]
  note X = poller_iteration [where rt = ?rt and net = net_bad_states and q = ?empty and w = world0,
             THEN conjunct2, THEN conjunct1, THEN mp, OF sz_empty,
             THEN conjunct2, THEN conjunct2, THEN conjunct2, THEN conjunct2, THEN conjunct2,
             THEN spec, THEN mp, OF bad]
  note L = poller_iteration [where rt = ?rt and net = net_down and k = 3 and s = "(?empty, [])" and w = world0,
             THEN conjunct2, THEN conjunct2, THEN conjunct2, THEN conjunct2]
  note L1 = L [THEN conjunct1]
  note L2 = L [THEN conjunct2, THEN conjunct1]
  note P = poller_iteration [where s = "(?empty, [])" and xs = two_states,
             THEN conjunct2, THEN conjunct2, THEN conjunct2, THEN conjunct2, THEN conjunct2,
             THEN conjunct2, THEN conjunct1, THEN mp, OF res0]
  note T = poller_iteration [THEN conjunct2, THEN conjunct2, THEN conjunct2, THEN conjunct2, THEN conjunct2,
             THEN conjunct2, THEN conjunct2, THEN spec, THEN conjunct1, THEN mp, of 20]
  have b: "body (enqueue_request (example_runtime [example_node ''Echo'' [] echo]))
     = Some (JObj [(''nodes'', JArr [JStr ''Echo'']), (''batch_size'', JNum 2)])"
    using B by (simp add: example_runtime_def size_queue_def new_AsyncQueue_def example_node_sel)
  have p: "foldl run_op (new_AsyncQueue 4, []) (map Put two_states)
     = (\<lparr>items = two_states, resolvers = [], capacity = 4\<rparr>, [])"
    using P by (simp add: new_AsyncQueue_def)
  have t: "setTimeout_delay 20 = 20"
    using T by simp
  from F S1 S5 D R H N X L1 L2 b p t pi c0 d n2 show ?thesis
    by simp
qed

text \<open>
  Claim C8 as stated fails for a poll interval whose double is above the largest delay of
  a timer: with a poll interval of 1073741824 milliseconds and a \<^verbatim>\<open>fetch\<close> that rejects, the
  poller asks for a timer of 2147483648 milliseconds and sleeps 1 millisecond before it
  retries.
\<close>

theorem poll_interval_counterexample:
  "sleeps (snd (snd (enqueue_iteration ((example_runtime [])\<lparr>pollInterval := 1073741824\<rparr>) net_down
                      (new_AsyncQueue 4) world0))) = [1] \<and>
   pollInterval ((example_runtime [])\<lparr>pollInterval := 1073741824\<rparr>) * 2 = 2147483648"
  by (simp add: enqueue_iteration_def enqueue_try_def enqueueCall_def fetch_def size_queue_def
        new_AsyncQueue_def interpolates_def sleep_def setTimeout_delay_def logger_def
        example_runtime_def world0_def net_down_def)

end
